theory Spec2Isabelle
  imports Main "HOL-Library.Word"
begin

unbundle bit_operations_syntax

section \<open>The kubeconfig document (package cluster)\<close>

text \<open>
  The structs that \<^verbatim>\<open>getKubeconfig\<close> marshals and unmarshals, field by field as the
  source declares them. Several structs have a field \<^verbatim>\<open>Name\<close>, \<^verbatim>\<open>Cluster\<close>,
  \<^verbatim>\<open>User\<close> or \<^verbatim>\<open>APIVersion\<close>; the fields are told apart by the record's name
  (\<open>NamedCluster.Name\<close>, \<open>NamedContext.Name\<close>, ...).

  A Go slice is modelled by the list of its elements. The nil slice and the empty slice
  have the same elements, the same \<^verbatim>\<open>len\<close>, the same \<^verbatim>\<open>range\<close>, the same
  \<^verbatim>\<open>append\<close> and (under \<^verbatim>\<open>omitempty\<close>) the same serialisation: both are \<open>[]\<close>.
  Likewise a Go map is a partial function, the nil map and the empty map both
  \<open>Map.empty\<close>. The values of \<^verbatim>\<open>Preferences\<close> have type \<^verbatim>\<open>interface{}\<close>: the type
  parameter \<open>'v\<close>.
\<close>

record Cluster =
  CertificateAuthorityData :: string
  Server :: string

record NamedCluster =
  Name :: string
  Cluster :: Cluster

record Context =
  Cluster :: string
  User :: string

record NamedContext =
  Name :: string
  Context :: Context

record ExecConfig =
  APIVersion :: string
  Command :: string
  InstallHint :: string
  ProvideClusterInfo :: bool

record AuthInfo =
  Exec :: "ExecConfig option"

record NamedAuthInfo =
  Name :: string
  User :: AuthInfo

record 'v Kubeconfig =
  APIVersion :: string
  Clusters :: "NamedCluster list"
  Contexts :: "NamedContext list"
  CurrentContext :: string
  Kind :: string
  Preferences :: "string \<rightharpoonup> 'v"
  Users :: "NamedAuthInfo list"

section \<open>Endpoint and name (lines 272-278)\<close>

text \<open>\<^verbatim>\<open>strings.HasPrefix(s, prefix)\<close>.\<close>

definition HasPrefix :: "string \<Rightarrow> string \<Rightarrow> bool" where
  "HasPrefix s pre = (length s \<ge> length pre \<and> take (length pre) s = pre)"

text \<open>
  Lines 272-275: \<^verbatim>\<open>if !strings.HasPrefix(endpoint, "https://") { endpoint = "https://" + endpoint }\<close>.
\<close>

definition secureEndpoint :: "string \<Rightarrow> string" where
  "secureEndpoint endpoint =
     (if \<not> HasPrefix endpoint ''https://'' then ''https://'' @ endpoint else endpoint)"

text \<open>Line 278: \<^verbatim>\<open>fmt.Sprintf("gke_%s_%s_%s", args.ProjectID, args.Location, args.Name)\<close>.\<close>

definition newClusterName :: "string \<Rightarrow> string \<Rightarrow> string \<Rightarrow> string" where
  "newClusterName projectID location name =
     ''gke_'' @ projectID @ ''_'' @ location @ ''_'' @ name"

section \<open>The three new entries (lines 329-354)\<close>

definition newCluster :: "string \<Rightarrow> string \<Rightarrow> string \<Rightarrow> NamedCluster" where
  "newCluster n clusterCaCertificate endpoint =
     \<lparr>NamedCluster.Name = n,
      NamedCluster.Cluster =
        \<lparr>CertificateAuthorityData = clusterCaCertificate, Server = endpoint\<rparr>\<rparr>"

definition newContext :: "string \<Rightarrow> NamedContext" where
  "newContext n =
     \<lparr>NamedContext.Name = n,
      NamedContext.Context = \<lparr>Context.Cluster = n, Context.User = n\<rparr>\<rparr>"

definition newUser :: "string \<Rightarrow> NamedAuthInfo" where
  "newUser n =
     \<lparr>NamedAuthInfo.Name = n,
      NamedAuthInfo.User =
        \<lparr>Exec = Some
          \<lparr>ExecConfig.APIVersion = ''client.authentication.k8s.io/v1beta1'',
           Command = ''gke-gcloud-auth-plugin'',
           InstallHint = ''Install gke-gcloud-auth-plugin for use with kubectl by following https://cloud.google.com/kubernetes-engine/docs/how-to/cluster-access-for-kubectl#install_plugin'',
           ProvideClusterInfo = True\<rparr>\<rparr>\<rparr>"

section \<open>Append or update (lines 356-396)\<close>

text \<open>
  The source runs the same loop three times, over \<^verbatim>\<open>Clusters\<close>, \<^verbatim>\<open>Contexts\<close> and
  \<^verbatim>\<open>Users\<close>:
  \<^verbatim>\<open>
  found := false
  for i, c := range xs {
      if c.Name == newClusterName { xs[i] = new; found = true; break }
  }
  if !found { xs = append(xs, new) }
  \<close>
  \<open>scanReplace\<close> is the loop from index \<open>i\<close> on, returning the slice and the flag;
  \<open>nm\<close> reads the \<^verbatim>\<open>Name\<close> field of the element type. The loop stops at the first
  match (\<^verbatim>\<open>break\<close>).
\<close>

function scanReplace :: "('a \<Rightarrow> string) \<Rightarrow> string \<Rightarrow> 'a \<Rightarrow> nat \<Rightarrow> 'a list \<Rightarrow> 'a list \<times> bool" where
  "scanReplace nm n new i xs =
     (if i < length xs
      then (if nm (xs ! i) = n then (xs[i := new], True)
            else scanReplace nm n new (Suc i) xs)
      else (xs, False))"
  by pat_completeness auto
termination
  by (relation "measure (\<lambda>(nm, n, new, i, xs). length xs - i)") auto

definition upsert :: "('a \<Rightarrow> string) \<Rightarrow> string \<Rightarrow> 'a \<Rightarrow> 'a list \<Rightarrow> 'a list" where
  "upsert nm n new xs =
     (case scanReplace nm n new 0 xs of
        (xs', found) \<Rightarrow> if \<not> found then xs' @ [new] else xs')"

text \<open>
  Lines 329-396 as one function of the loaded document: build the three entries, upsert
  each, set the current context.
\<close>

definition mergeKubeconfig :: "string \<Rightarrow> string \<Rightarrow> string \<Rightarrow> 'v Kubeconfig \<Rightarrow> 'v Kubeconfig" where
  "mergeKubeconfig n clusterCaCertificate endpoint existingKubeconfig =
     existingKubeconfig
       \<lparr>Clusters := upsert NamedCluster.Name n (newCluster n clusterCaCertificate endpoint)
                     (Clusters existingKubeconfig),
        Contexts := upsert NamedContext.Name n (newContext n) (Contexts existingKubeconfig),
        Users := upsert NamedAuthInfo.Name n (newUser n) (Users existingKubeconfig),
        CurrentContext := n\<rparr>"

section \<open>The collaborators of \<^verbatim>\<open>getKubeconfig\<close>\<close>

subsection \<open>The cluster manager client and the configuration\<close>

text \<open>
  \<^verbatim>\<open>h.cmClient.GetCluster(ctx, req)\<close> is a remote call: the handler is given its result as
  a function of the request's \<^verbatim>\<open>Name\<close>, an error message on the left. The getters of the
  response are nil-safe: \<^verbatim>\<open>resp.GetMasterAuth().GetClusterCaCertificate()\<close> is the empty
  string when there is no \<^verbatim>\<open>MasterAuth\<close>.
\<close>

record MasterAuth =
  ClusterCaCertificate :: string

record ClusterPb =
  MasterAuth :: "MasterAuth option"
  Endpoint :: string

definition GetClusterCaCertificate :: "MasterAuth option \<Rightarrow> string" where
  "GetClusterCaCertificate m = (case m of None \<Rightarrow> [] | Some a \<Rightarrow> ClusterCaCertificate a)"

record handlers =
  DefaultProjectID :: string
  DefaultLocation :: string
  GetCluster :: "string \<Rightarrow> string + ClusterPb"

record getKubeconfigArgs =
  ProjectID :: string
  Location :: string
  Name :: string

subsection \<open>The YAML library\<close>

text \<open>
  \<^verbatim>\<open>sigs.k8s.io/yaml\<close> is not part of the repository: \<^verbatim>\<open>yaml.Unmarshal\<close> into the
  zero-valued \<^verbatim>\<open>existingKubeconfig\<close> and \<^verbatim>\<open>yaml.Marshal\<close> are parameters, \<open>None\<close>
  when they return an error.
\<close>

record 'v yaml =
  Unmarshal :: "string \<Rightarrow> 'v Kubeconfig option"
  Marshal :: "'v Kubeconfig \<Rightarrow> string option"

subsection \<open>Files, directories and modes\<close>

text \<open>
  A path is the list of its components after \<^verbatim>\<open>filepath.Clean\<close>, from the root:
  \<^verbatim>\<open>filepath.Join(homeDir, ".kube", "config")\<close> appends two components and
  \<^verbatim>\<open>filepath.Dir\<close> drops the last one. \<^verbatim>\<open>os.FileMode\<close> is a \<^verbatim>\<open>uint32\<close>; the
  permission bits are the low nine (\<^verbatim>\<open>0755\<close> is 493, \<^verbatim>\<open>0600\<close> is 384).

  The file system maps a path to a regular file (content and mode) or to a directory
  (mode); the root is always a directory. The process owns every node and is not the
  superuser, so only the owner bits decide access. The operations follow the documentation of package \<^verbatim>\<open>os\<close>:
  \<^verbatim>\<open>WriteFile\<close> creates a missing file with the given permissions "before umask", that
  is with the bits of the process's umask cleared, and truncates an existing one without
  changing its permissions; \<^verbatim>\<open>MkdirAll\<close> creates the directory and every missing parent
  with the given permissions before umask and does nothing when the directory exists.
  \<^verbatim>\<open>MkdirAll\<close> returns its error, if any, and the file system with the directories made
  so far.
\<close>

type_synonym path = "string list"

type_synonym FileMode = "32 word"

datatype node = File string FileMode | Dir FileMode

datatype errno = ENOENT | EACCES | EISDIR | ENOTDIR | EEXIST

type_synonym filesystem = "path \<rightharpoonup> node"

text \<open>
  What the handler sees of the operating system: the home directory (\<open>None\<close> when
  \<^verbatim>\<open>os.UserHomeDir\<close> returns an error), the umask of the process and the file system.
\<close>

record os =
  HOME :: "path option"
  umask :: FileMode
  fs :: filesystem

definition beforeUmask :: "FileMode \<Rightarrow> FileMode \<Rightarrow> FileMode" where
  "beforeUmask u perm = perm AND NOT u"

definition ownerRead :: "FileMode \<Rightarrow> bool" where
  "ownerRead m = (m AND 256 \<noteq> 0)"

definition ownerWrite :: "FileMode \<Rightarrow> bool" where
  "ownerWrite m = (m AND 128 \<noteq> 0)"

definition ownerSearch :: "FileMode \<Rightarrow> bool" where
  "ownerSearch m = (m AND 64 \<noteq> 0)"

text \<open>No permission bit of the group or of others is set: the mode is within \<^verbatim>\<open>0700\<close>.\<close>

definition ownerOnly :: "FileMode \<Rightarrow> bool" where
  "ownerOnly m = (m AND 63 = 0)"

definition nodeAt :: "filesystem \<Rightarrow> path \<Rightarrow> node option" where
  "nodeAt f p = (if p = [] then Some (Dir 493) else f p)"

definition IsNotExist :: "errno \<Rightarrow> bool" where
  "IsNotExist err = (err = ENOENT)"

definition filepath_Join :: "path \<Rightarrow> string list \<Rightarrow> path" where
  "filepath_Join p elems = p @ elems"

definition filepath_Dir :: "path \<Rightarrow> path" where
  "filepath_Dir p = butlast p"

definition pathString :: "path \<Rightarrow> string" where
  "pathString p = (if p = [] then ''/'' else concat (map (\<lambda>c. ''/'' @ c) p))"

text \<open>
  Resolving a path walks it from the root. Every directory on the way has to exist
  (\<^verbatim>\<open>ENOENT\<close>), to be a directory (\<^verbatim>\<open>ENOTDIR\<close>) and to give its owner the search
  permission (\<^verbatim>\<open>EACCES\<close>); the last component has to exist. \<open>walk f cur cs\<close> resolves the
  components \<open>cs\<close> below the path \<open>cur\<close> already walked. \<^verbatim>\<open>os.Stat\<close>, \<^verbatim>\<open>os.ReadFile\<close>,
  \<^verbatim>\<open>os.Mkdir\<close> and \<^verbatim>\<open>os.WriteFile\<close> all resolve their path first; creating an entry asks
  for the write permission on the directory it is created in.
\<close>

fun walk :: "filesystem \<Rightarrow> path \<Rightarrow> string list \<Rightarrow> errno + node" where
  "walk f cur [] = (case nodeAt f cur of None \<Rightarrow> Inl ENOENT | Some nd \<Rightarrow> Inr nd)"
| "walk f cur (c # cs) =
     (case nodeAt f cur of
        None \<Rightarrow> Inl ENOENT
      | Some (File bytes m) \<Rightarrow> Inl ENOTDIR
      | Some (Dir m) \<Rightarrow> if ownerSearch m then walk f (cur @ [c]) cs else Inl EACCES)"

definition Stat :: "filesystem \<Rightarrow> path \<Rightarrow> errno + node" where
  "Stat f p = walk f [] p"

definition ReadFile :: "filesystem \<Rightarrow> path \<Rightarrow> errno + string" where
  "ReadFile f p =
     (case Stat f p of
        Inl err \<Rightarrow> Inl err
      | Inr (Dir m) \<Rightarrow> Inl EISDIR
      | Inr (File bytes m) \<Rightarrow> if ownerRead m then Inr bytes else Inl EACCES)"

definition Mkdir :: "filesystem \<Rightarrow> FileMode \<Rightarrow> path \<Rightarrow> FileMode \<Rightarrow> errno + filesystem" where
  "Mkdir f u p perm =
     (case Stat f p of
        Inr nd \<Rightarrow> Inl EEXIST
      | Inl err \<Rightarrow>
          if err \<noteq> ENOENT then Inl err
          else (case Stat f (filepath_Dir p) of
                  Inl err' \<Rightarrow> Inl err'
                | Inr (File bytes m) \<Rightarrow> Inl ENOTDIR
                | Inr (Dir m) \<Rightarrow>
                    if ownerWrite m then Inr (f(p \<mapsto> Dir (beforeUmask u perm)))
                    else Inl EACCES))"

text \<open>
  \<^verbatim>\<open>os.MkdirAll\<close> as package \<^verbatim>\<open>os\<close> writes it: return when \<^verbatim>\<open>Stat\<close> finds a directory,
  fail with \<^verbatim>\<open>ENOTDIR\<close> when it finds a file; otherwise make the parent, then the
  directory itself, and when that fails look once more whether the directory is there.
\<close>

function MkdirAll :: "filesystem \<Rightarrow> FileMode \<Rightarrow> path \<Rightarrow> FileMode \<Rightarrow> errno option \<times> filesystem" where
  "MkdirAll f u p perm =
     (case Stat f p of
        Inr (Dir m) \<Rightarrow> (None, f)
      | Inr (File bytes m) \<Rightarrow> (Some ENOTDIR, f)
      | Inl err \<Rightarrow>
          (case MkdirAll f u (filepath_Dir p) perm of
             (Some err', f') \<Rightarrow> (Some err', f')
           | (None, f') \<Rightarrow>
               (case Mkdir f' u p perm of
                  Inr f'' \<Rightarrow> (None, f'')
                | Inl err' \<Rightarrow>
                    (case Stat f' p of
                       Inr (Dir m) \<Rightarrow> (None, f')
                     | _ \<Rightarrow> (Some err', f')))))"
  by pat_completeness auto
termination
proof (relation "measure (\<lambda>(f, u, p, perm). length p)")
  show "wf (measure (\<lambda>(f, u, p, perm). length p))" by simp
next
  fix f :: filesystem and u perm :: FileMode and p :: path and err :: errno
  assume "Stat f p = Inl err"
  then have "p \<noteq> []" by (auto simp: Stat_def nodeAt_def)
  then show "((f, u, filepath_Dir p, perm), (f, u, p, perm)) \<in> measure (\<lambda>(f, u, p, perm). length p)"
    by (simp add: filepath_Dir_def)
qed

definition WriteFile :: "filesystem \<Rightarrow> FileMode \<Rightarrow> path \<Rightarrow> string \<Rightarrow> FileMode \<Rightarrow> errno + filesystem" where
  "WriteFile f u p bytes perm =
     (case Stat f p of
        Inr (Dir m) \<Rightarrow> Inl EISDIR
      | Inr (File old m) \<Rightarrow> if ownerWrite m then Inr (f(p \<mapsto> File bytes m)) else Inl EACCES
      | Inl err \<Rightarrow>
          if err \<noteq> ENOENT then Inl err
          else (case Stat f (filepath_Dir p) of
                  Inl err' \<Rightarrow> Inl err'
                | Inr (File old m) \<Rightarrow> Inl ENOTDIR
                | Inr (Dir m) \<Rightarrow>
                    if ownerWrite m then Inr (f(p \<mapsto> File bytes (beforeUmask u perm)))
                    else Inl EACCES))"

section \<open>\<^verbatim>\<open>getKubeconfig\<close> (lines 243-424)\<close>

text \<open>Every \<^verbatim>\<open>return nil, nil, fmt.Errorf(...)\<close> of the handler, in the order of the source.\<close>

datatype error =
    NameEmpty
  | GetClusterFailed string string
  | CaCertificateNotFound string
  | EndpointNotFound string
  | HomeDirFailed
  | ReadFailed path errno
  | UnmarshalFailed path
  | MarshalFailed
  | MkdirFailed path errno
  | WriteFailed path errno

text \<open>
  Lines 288-327: read the existing file, or start a new document when there is none.
  After a successful parse the source replaces nil slices and a nil map by empty ones
  (the identity on lists and maps) and fills in an empty \<^verbatim>\<open>APIVersion\<close> and
  \<^verbatim>\<open>Kind\<close>. In the branch of the missing file the source sets \<^verbatim>\<open>APIVersion\<close>,
  \<^verbatim>\<open>Kind\<close> and \<^verbatim>\<open>Preferences\<close> and leaves the other fields zero.
\<close>

definition loadKubeconfig :: "'v yaml \<Rightarrow> filesystem \<Rightarrow> path \<Rightarrow> error + 'v Kubeconfig" where
  "loadKubeconfig y f kubeconfigPath =
     (case ReadFile f kubeconfigPath of
        Inl err \<Rightarrow>
          if \<not> IsNotExist err then Inl (ReadFailed kubeconfigPath err)
          else Inr \<lparr>Kubeconfig.APIVersion = ''v1'', Clusters = [], Contexts = [],
                    CurrentContext = [], Kind = ''Config'', Preferences = Map.empty,
                    Users = []\<rparr>
      | Inr kubeconfigBytes \<Rightarrow>
          (case Unmarshal y kubeconfigBytes of
             None \<Rightarrow> Inl (UnmarshalFailed kubeconfigPath)
           | Some k \<Rightarrow>
               Inr (k\<lparr>Kubeconfig.APIVersion :=
                         (if Kubeconfig.APIVersion k = [] then ''v1'' else Kubeconfig.APIVersion k),
                       Kind := (if Kind k = [] then ''Config'' else Kind k)\<rparr>)))"

text \<open>
  Lines 398-417: marshal, make sure the directory exists, write the file. The result is
  the error, if any, and the file system as the calls left it: a directory created
  before a failing write stays.
\<close>

definition writeKubeconfig :: "'v yaml \<Rightarrow> filesystem \<Rightarrow> FileMode \<Rightarrow> path \<Rightarrow> 'v Kubeconfig \<Rightarrow> error option \<times> filesystem" where
  "writeKubeconfig y f u kubeconfigPath existingKubeconfig =
     (case Marshal y existingKubeconfig of
        None \<Rightarrow> (Some MarshalFailed, f)
      | Some updatedKubeconfigBytes \<Rightarrow>
          (let kubeDir = filepath_Dir kubeconfigPath;
               made = (case Stat f kubeDir of
                         Inl err \<Rightarrow> if IsNotExist err then MkdirAll f u kubeDir 493 else (None, f)
                       | Inr info \<Rightarrow> (None, f))
           in case made of
                (Some err, f') \<Rightarrow> (Some (MkdirFailed kubeDir err), f')
              | (None, f') \<Rightarrow>
                  (case WriteFile f' u kubeconfigPath updatedKubeconfigBytes 384 of
                     Inl err \<Rightarrow> (Some (WriteFailed kubeconfigPath err), f')
                   | Inr f'' \<Rightarrow> (None, f''))))"

text \<open>The text of the result (line 421).\<close>

definition successText :: "string \<Rightarrow> string \<Rightarrow> string \<Rightarrow> path \<Rightarrow> string \<Rightarrow> string" where
  "successText name projectID location kubeconfigPath n =
     ''Kubeconfig for cluster '' @ name @ '' (Project: '' @ projectID @ '', Location: '' @ location
       @ '') successfully appended/updated in '' @ pathString kubeconfigPath
       @ ''. Current context set to '' @ n @ ''.''"

text \<open>Lines 244-249: an empty project or location is replaced by the configured default.\<close>

definition projectOf :: "handlers \<Rightarrow> getKubeconfigArgs \<Rightarrow> string" where
  "projectOf h args = (if ProjectID args = [] then DefaultProjectID h else ProjectID args)"

definition locationOf :: "handlers \<Rightarrow> getKubeconfigArgs \<Rightarrow> string" where
  "locationOf h args = (if Location args = [] then DefaultLocation h else Location args)"

text \<open>Line 255: the \<^verbatim>\<open>Name\<close> of the \<^verbatim>\<open>GetClusterRequest\<close>.\<close>

definition requestName :: "handlers \<Rightarrow> getKubeconfigArgs \<Rightarrow> string" where
  "requestName h args =
     ''projects/'' @ projectOf h args @ ''/locations/'' @ locationOf h args
       @ ''/clusters/'' @ getKubeconfigArgs.Name args"

text \<open>Line 285.\<close>

definition kubeconfigPathOf :: "path \<Rightarrow> path" where
  "kubeconfigPathOf homeDir = filepath_Join homeDir [''.kube'', ''config'']"

text \<open>
  The handler: the text of the result or the error, and the operating system's state
  afterwards. Every error before the write stage returns the state as it was.
\<close>

definition getKubeconfig :: "handlers \<Rightarrow> 'v yaml \<Rightarrow> getKubeconfigArgs \<Rightarrow> os \<Rightarrow> (error + string) \<times> os" where
  "getKubeconfig h y args w =
     (let projectID = projectOf h args;
          location = locationOf h args;
          name = getKubeconfigArgs.Name args
      in if name = [] then (Inl NameEmpty, w)
         else
           (case GetCluster h (requestName h args) of
              Inl err \<Rightarrow> (Inl (GetClusterFailed name err), w)
            | Inr resp \<Rightarrow>
                (let clusterCaCertificate = GetClusterCaCertificate (MasterAuth resp);
                     endpoint = Endpoint resp
                 in if clusterCaCertificate = [] then (Inl (CaCertificateNotFound name), w)
                    else if endpoint = [] then (Inl (EndpointNotFound name), w)
                    else
                      (let endpoint' = secureEndpoint endpoint;
                           n = newClusterName projectID location name
                       in case HOME w of
                            None \<Rightarrow> (Inl HomeDirFailed, w)
                          | Some homeDir \<Rightarrow>
                              (let kubeconfigPath = kubeconfigPathOf homeDir
                               in case loadKubeconfig y (fs w) kubeconfigPath of
                                    Inl e \<Rightarrow> (Inl e, w)
                                  | Inr existingKubeconfig \<Rightarrow>
                                      (case writeKubeconfig y (fs w) (umask w) kubeconfigPath
                                              (mergeKubeconfig n clusterCaCertificate endpoint'
                                                 existingKubeconfig) of
                                         (Some e, f') \<Rightarrow> (Inl e, w\<lparr>fs := f'\<rparr>)
                                       | (None, f') \<Rightarrow>
                                           (Inr (successText name projectID location
                                                   kubeconfigPath n),
                                            w\<lparr>fs := f'\<rparr>)))))))"

section \<open>Positions and example documents\<close>

text \<open>
  The index of the first entry named \<open>n\<close> (the length of the list when there is none):
  the index at which the loop of \<open>scanReplace\<close> stops.
\<close>

definition firstIndex :: "('a \<Rightarrow> string) \<Rightarrow> string \<Rightarrow> 'a list \<Rightarrow> nat" where
  "firstIndex nm n xs = length (takeWhile (\<lambda>c. nm c \<noteq> n) xs)"

text \<open>How many entries of a list are named \<open>n\<close>.\<close>

definition countNamed :: "('a \<Rightarrow> string) \<Rightarrow> string \<Rightarrow> 'a list \<Rightarrow> nat" where
  "countNamed nm n xs = length (filter (\<lambda>c. nm c = n) xs)"

text \<open>
  A document as \<^verbatim>\<open>kubectl\<close> users have it: an entry for another cluster, then an
  entry for \<^verbatim>\<open>gke_p1_us-central1_demo\<close> with outdated values, then a third.
\<close>

definition demoName :: string where
  "demoName = newClusterName ''p1'' ''us-central1'' ''demo''"

definition exampleKubeconfig :: "string Kubeconfig" where
  "exampleKubeconfig =
     \<lparr>Kubeconfig.APIVersion = ''v1'',
      Clusters = [newCluster ''minikube'' ''MINICERT'' ''https://192.168.49.2:8443'',
                  newCluster demoName ''OLDCERT'' ''https://10.9.9.9'',
                  newCluster ''kind-dev'' ''KINDCERT'' ''https://127.0.0.1:6443''],
      Contexts = [newContext ''minikube'', newContext demoName, newContext ''kind-dev''],
      CurrentContext = ''minikube'',
      Kind = ''Config'',
      Preferences = [''colors'' \<mapsto> ''true''],
      Users = [newUser ''minikube'', newUser demoName, newUser ''kind-dev'']\<rparr>"

text \<open>
  A document that a hand edit left with the name \<^verbatim>\<open>gke_p1_us-central1_demo\<close> twice
  in each sequence. Nothing in the loader rejects it.
\<close>

definition duplicateKubeconfig :: "string Kubeconfig" where
  "duplicateKubeconfig =
     \<lparr>Kubeconfig.APIVersion = ''v1'',
      Clusters = [newCluster ''minikube'' ''MINICERT'' ''https://192.168.49.2:8443'',
                  newCluster demoName ''OLDCERT'' ''https://10.9.9.9'',
                  newCluster demoName ''OLDERCERT'' ''https://10.8.8.8''],
      Contexts = [newContext demoName,
                  \<lparr>NamedContext.Name = demoName,
                   NamedContext.Context = \<lparr>Context.Cluster = ''minikube'', Context.User = ''minikube''\<rparr>\<rparr>],
      CurrentContext = ''minikube'',
      Kind = ''Config'',
      Preferences = Map.empty,
      Users = [newUser demoName, \<lparr>NamedAuthInfo.Name = demoName, NamedAuthInfo.User = \<lparr>Exec = None\<rparr>\<rparr>]\<rparr>"

text \<open>
  The scenario of the specification: project \<^verbatim>\<open>p1\<close>, location \<^verbatim>\<open>us-central1\<close>,
  cluster \<^verbatim>\<open>demo\<close>; the cluster manager answers with endpoint \<^verbatim>\<open>10.0.0.1\<close> and
  certificate \<^verbatim>\<open>BASE64CERT\<close>. Two more clients answer without a certificate and
  without an endpoint.
\<close>

definition exampleArgs :: getKubeconfigArgs where
  "exampleArgs = \<lparr>ProjectID = ''p1'', Location = ''us-central1'', Name = ''demo''\<rparr>"

definition exampleHandlers :: handlers where
  "exampleHandlers =
     \<lparr>DefaultProjectID = ''p0'', DefaultLocation = ''europe-west1'',
      GetCluster = (\<lambda>r. Inr \<lparr>MasterAuth = Some \<lparr>ClusterCaCertificate = ''BASE64CERT''\<rparr>,
                              Endpoint = ''10.0.0.1''\<rparr>)\<rparr>"

definition noCertificateHandlers :: handlers where
  "noCertificateHandlers =
     \<lparr>DefaultProjectID = ''p0'', DefaultLocation = ''europe-west1'',
      GetCluster = (\<lambda>r. Inr \<lparr>MasterAuth = None, Endpoint = ''10.0.0.1''\<rparr>)\<rparr>"

definition noEndpointHandlers :: handlers where
  "noEndpointHandlers =
     \<lparr>DefaultProjectID = ''p0'', DefaultLocation = ''europe-west1'',
      GetCluster = (\<lambda>r. Inr \<lparr>MasterAuth = Some \<lparr>ClusterCaCertificate = ''BASE64CERT''\<rparr>,
                              Endpoint = []\<rparr>)\<rparr>"

text \<open>
  A stand-in for the YAML library, for the examples only: it parses one text, to
  \<open>exampleKubeconfig\<close>, rejects every other text, and renders a document by its current
  context and the name and server of each cluster.
\<close>

definition exampleYaml :: "string yaml" where
  "exampleYaml =
     \<lparr>Unmarshal = (\<lambda>bytes. if bytes = ''apiVersion: v1 ...'' then Some exampleKubeconfig else None),
      Marshal = (\<lambda>k. Some (''current-context: '' @ CurrentContext k @ ''; clusters: ''
                  @ concat (map (\<lambda>c. NamedCluster.Name c @ '' '' @ Server (NamedCluster.Cluster c) @ ''; '')
                             (Clusters k))))\<rparr>"

text \<open>
  Three machines with home directory \<^verbatim>\<open>/home/u\<close> (mode \<^verbatim>\<open>0700\<close>, 448) and the
  usual umask \<^verbatim>\<open>022\<close> (18): one without
  \<^verbatim>\<open>.kube\<close>, one with a \<^verbatim>\<open>config\<close> of mode \<^verbatim>\<open>0644\<close> (420) that parses, one with a
  \<^verbatim>\<open>config\<close> that does not parse.
\<close>

definition freshWorld :: os where
  "freshWorld =
     \<lparr>HOME = Some [''home'', ''u''], umask = 18,
      fs = [[''home''] \<mapsto> Dir 493, [''home'', ''u''] \<mapsto> Dir 448]\<rparr>"

definition existingWorld :: os where
  "existingWorld =
     \<lparr>HOME = Some [''home'', ''u''], umask = 18,
      fs = [[''home''] \<mapsto> Dir 493, [''home'', ''u''] \<mapsto> Dir 448,
            [''home'', ''u'', ''.kube''] \<mapsto> Dir 448,
            [''home'', ''u'', ''.kube'', ''config''] \<mapsto> File ''apiVersion: v1 ...'' 420]\<rparr>"

definition brokenWorld :: os where
  "brokenWorld =
     \<lparr>HOME = Some [''home'', ''u''], umask = 18,
      fs = [[''home''] \<mapsto> Dir 493, [''home'', ''u''] \<mapsto> Dir 448,
            [''home'', ''u'', ''.kube''] \<mapsto> Dir 448,
            [''home'', ''u'', ''.kube'', ''config''] \<mapsto> File ''clusters: [unclosed'' 384]\<rparr>"

text \<open>
  Two more machines without a \<^verbatim>\<open>config\<close>: one whose home directory has mode \<^verbatim>\<open>0500\<close>
  (320, no write permission), one where \<^verbatim>\<open>.kube\<close> is a regular file.
\<close>

definition readOnlyHomeWorld :: os where
  "readOnlyHomeWorld =
     \<lparr>HOME = Some [''home'', ''u''], umask = 18,
      fs = [[''home''] \<mapsto> Dir 493, [''home'', ''u''] \<mapsto> Dir 320]\<rparr>"

definition kubeIsFileWorld :: os where
  "kubeIsFileWorld =
     \<lparr>HOME = Some [''home'', ''u''], umask = 18,
      fs = [[''home''] \<mapsto> Dir 493, [''home'', ''u''] \<mapsto> Dir 448,
            [''home'', ''u'', ''.kube''] \<mapsto> File ''notes'' 420]\<rparr>"

text \<open>A text is the concatenation of its lines, each ended by a line feed.\<close>

definition unlines :: "string list \<Rightarrow> string" where
  "unlines ls = concat (map (\<lambda>l. l @ [CHR 0x0A]) ls)"

text \<open>
  A \<^verbatim>\<open>config\<close> in the block style of \<^verbatim>\<open>kubectl\<close>, with one cluster, one context and one user,
  all named \<^verbatim>\<open>other\<close>, and with fields that the structs of the handler do not declare:
  the \<^verbatim>\<open>tls-server-name\<close> of the cluster, the \<^verbatim>\<open>namespace\<close> of the context and the
  \<^verbatim>\<open>token\<close> of the user. \<^verbatim>\<open>yaml.Unmarshal\<close> goes through \<^verbatim>\<open>encoding/json\<close>, which
  ignores the keys of an object that match no field of the struct: what it returns for
  this text is \<open>tokenKubeconfig\<close>, where the user \<^verbatim>\<open>other\<close> has no \<^verbatim>\<open>Exec\<close> and
  nothing else.
\<close>

definition tokenText :: string where
  "tokenText = unlines
     [''apiVersion: v1'',
      ''clusters:'',
      ''- cluster:'',
      ''    certificate-authority-data: OTHERCA'',
      ''    server: https://203.0.113.7'',
      ''    tls-server-name: other.internal'',
      ''  name: other'',
      ''contexts:'',
      ''- context:'',
      ''    cluster: other'',
      ''    namespace: prod'',
      ''    user: other'',
      ''  name: other'',
      ''current-context: other'',
      ''kind: Config'',
      ''users:'',
      ''- name: other'',
      ''  user:'',
      ''    token: SECRET'']"

definition tokenKubeconfig :: "string Kubeconfig" where
  "tokenKubeconfig =
     \<lparr>Kubeconfig.APIVersion = ''v1'',
      Clusters = [newCluster ''other'' ''OTHERCA'' ''https://203.0.113.7''],
      Contexts = [newContext ''other''],
      CurrentContext = ''other'',
      Kind = ''Config'',
      Preferences = Map.empty,
      Users = [\<lparr>NamedAuthInfo.Name = ''other'', NamedAuthInfo.User = \<lparr>Exec = None\<rparr>\<rparr>]\<rparr>"

text \<open>
  A printer of the document in the block style of \<^verbatim>\<open>yaml.Marshal\<close>: the keys of each
  struct sorted, and left out as the \<^verbatim>\<open>omitempty\<close> of the struct tags says (lines
  100-151). It prints every field of every struct except the preferences, and does not
  fold long lines.
\<close>

definition linesNamedCluster :: "NamedCluster \<Rightarrow> string list" where
  "linesNamedCluster c =
     [''- cluster:'',
      ''    certificate-authority-data: '' @ CertificateAuthorityData (NamedCluster.Cluster c),
      ''    server: '' @ Server (NamedCluster.Cluster c),
      ''  name: '' @ NamedCluster.Name c]"

definition linesNamedContext :: "NamedContext \<Rightarrow> string list" where
  "linesNamedContext c =
     [''- context:'',
      ''    cluster: '' @ Context.Cluster (NamedContext.Context c),
      ''    user: '' @ Context.User (NamedContext.Context c),
      ''  name: '' @ NamedContext.Name c]"

definition linesExecConfig :: "ExecConfig \<Rightarrow> string list" where
  "linesExecConfig e =
     [''      apiVersion: '' @ ExecConfig.APIVersion e,
      ''      command: '' @ Command e]
     @ (if InstallHint e = [] then [] else [''      installHint: '' @ InstallHint e])
     @ (if ProvideClusterInfo e then [''      provideClusterInfo: true''] else [])"

definition linesNamedAuthInfo :: "NamedAuthInfo \<Rightarrow> string list" where
  "linesNamedAuthInfo a =
     [''- name: '' @ NamedAuthInfo.Name a]
     @ (case Exec (NamedAuthInfo.User a) of
          None \<Rightarrow> [''  user: {}'']
        | Some e \<Rightarrow> [''  user:'', ''    exec:''] @ linesExecConfig e)"

definition showKubeconfig :: "'v Kubeconfig \<Rightarrow> string" where
  "showKubeconfig k = unlines
     ((if Kubeconfig.APIVersion k = [] then [] else [''apiVersion: '' @ Kubeconfig.APIVersion k])
      @ (if Clusters k = [] then []
         else ''clusters:'' # concat (map linesNamedCluster (Clusters k)))
      @ (if Contexts k = [] then []
         else ''contexts:'' # concat (map linesNamedContext (Contexts k)))
      @ (if CurrentContext k = [] then [] else [''current-context: '' @ CurrentContext k])
      @ (if Kind k = [] then [] else [''kind: '' @ Kind k])
      @ (if Users k = [] then []
         else ''users:'' # concat (map linesNamedAuthInfo (Users k))))"

text \<open>
  The YAML library on the machine of that \<^verbatim>\<open>config\<close>: it parses \<open>tokenText\<close> as said
  and rejects every other text, and it prints documents with \<open>showKubeconfig\<close>.
\<close>

definition tokenYaml :: "string yaml" where
  "tokenYaml =
     \<lparr>Unmarshal = (\<lambda>bytes. if bytes = tokenText then Some tokenKubeconfig else None),
      Marshal = (\<lambda>k. Some (showKubeconfig k))\<rparr>"

definition tokenWorld :: os where
  "tokenWorld =
     \<lparr>HOME = Some [''home'', ''u''], umask = 18,
      fs = [[''home''] \<mapsto> Dir 493, [''home'', ''u''] \<mapsto> Dir 448,
            [''home'', ''u'', ''.kube''] \<mapsto> Dir 448,
            [''home'', ''u'', ''.kube'', ''config''] \<mapsto> File tokenText 384]\<rparr>"

section \<open>The append-or-update loop\<close>

declare scanReplace.simps [simp del]

lemma scanReplace_absent:
  "(\<And>k. i \<le> k \<Longrightarrow> k < length xs \<Longrightarrow> nm (xs ! k) \<noteq> n) \<Longrightarrow>
   scanReplace nm n new i xs = (xs, False)"
proof (induction nm n new i xs rule: scanReplace.induct)
  case (1 nm n new i xs)
  show ?case
  proof (cases "i < length xs")
    case True
    with "1.prems" have ne: "nm (xs ! i) \<noteq> n" by simp
    have "scanReplace nm n new (Suc i) xs = (xs, False)"
      using True ne "1.prems" by (intro "1.IH") simp_all
    with True ne show ?thesis by (subst scanReplace.simps) simp
  next
    case False
    then show ?thesis by (subst scanReplace.simps) simp
  qed
qed

lemma scanReplace_first:
  "i \<le> length pre \<Longrightarrow> nm c = n \<Longrightarrow>
   (\<And>k. i \<le> k \<Longrightarrow> k < length pre \<Longrightarrow> nm (pre ! k) \<noteq> n) \<Longrightarrow>
   scanReplace nm n new i (pre @ c # post) = (pre @ new # post, True)"
proof (induction nm n new i "pre @ c # post" rule: scanReplace.induct)
  case (1 nm n new i)
  show ?case
  proof (cases "i = length pre")
    case True
    with "1.prems" show ?thesis by (subst scanReplace.simps) simp
  next
    case False
    with "1.prems" have lt: "i < length pre" by simp
    with "1.prems" have ne: "nm ((pre @ c # post) ! i) \<noteq> n" by (simp add: nth_append)
    have "scanReplace nm n new (Suc i) (pre @ c # post) = (pre @ new # post, True)"
      using lt ne "1.prems" by (intro "1.hyps") simp_all
    with lt ne show ?thesis by (subst scanReplace.simps) simp
  qed
qed

lemma upsert_absent:
  "n \<notin> nm ` set xs \<Longrightarrow> upsert nm n new xs = xs @ [new]"
proof -
  assume a: "n \<notin> nm ` set xs"
  have "scanReplace nm n new 0 xs = (xs, False)"
  proof (rule scanReplace_absent)
    fix k assume "k < length xs"
    then have "xs ! k \<in> set xs" by simp
    with a show "nm (xs ! k) \<noteq> n" by blast
  qed
  then show ?thesis by (simp add: upsert_def)
qed

lemma upsert_first:
  "n \<notin> nm ` set pre \<Longrightarrow> nm c = n \<Longrightarrow> upsert nm n new (pre @ c # post) = pre @ new # post"
proof -
  assume a: "n \<notin> nm ` set pre" and c: "nm c = n"
  have "scanReplace nm n new 0 (pre @ c # post) = (pre @ new # post, True)"
  proof (rule scanReplace_first)
    fix k assume "k < length pre"
    then have "pre ! k \<in> set pre" by simp
    with a show "nm (pre ! k) \<noteq> n" by blast
  qed (use c in simp_all)
  then show ?thesis by (simp add: upsert_def)
qed

lemma first_named:
  "n \<in> nm ` set xs \<Longrightarrow> \<exists>pre c post. xs = pre @ c # post \<and> nm c = n \<and> n \<notin> nm ` set pre"
proof -
  assume "n \<in> nm ` set xs"
  then have "\<exists>x \<in> set xs. nm x = n" by auto
  then obtain pre c post where "xs = pre @ c # post" "nm c = n" "\<forall>y \<in> set pre. nm y \<noteq> n"
    by (auto dest!: split_list_first_prop)
  then show ?thesis by (intro exI [of _ pre] exI [of _ c] exI [of _ post]) auto
qed

lemma upsert_cases:
  obtains (absent) "n \<notin> nm ` set xs" "upsert nm n new xs = xs @ [new]"
  | (present) pre c post where "xs = pre @ c # post" "nm c = n" "n \<notin> nm ` set pre"
      "upsert nm n new xs = pre @ new # post"
proof (cases "n \<in> nm ` set xs")
  case False
  then show ?thesis using absent upsert_absent by metis
next
  case True
  then obtain pre c post where d: "xs = pre @ c # post" "nm c = n" "n \<notin> nm ` set pre"
    using first_named by metis
  then have "upsert nm n new xs = pre @ new # post" by (simp add: upsert_first)
  with d show ?thesis using present by blast
qed

lemma upsert_twice:
  assumes "nm new1 = n"
  shows "upsert nm n new2 (upsert nm n new1 xs) = upsert nm n new2 xs"
proof (cases rule: upsert_cases [of n nm xs new1])
  case absent
  then show ?thesis using assms upsert_first [of n nm xs new1 new2 "[]"] upsert_absent [of n nm xs new2] by simp
next
  case (present pre c post)
  then show ?thesis using assms by (simp add: upsert_first)
qed

lemma length_upsert:
  "length (upsert nm n new xs) = (if n \<in> nm ` set xs then length xs else Suc (length xs))"
  by (cases rule: upsert_cases [of n nm xs new]) auto

lemma filter_upsert_others:
  assumes "nm new = n"
  shows "filter (\<lambda>c. nm c \<noteq> n) (upsert nm n new xs) = filter (\<lambda>c. nm c \<noteq> n) xs"
  using assms by (cases rule: upsert_cases [of n nm xs new]) auto

lemma filter_pre: "n \<notin> nm ` set pre \<Longrightarrow> filter (\<lambda>c. nm c = n) pre = []"
  by (induction pre) auto

lemma filter_upsert_named:
  assumes "nm new = n"
  shows "filter (\<lambda>c. nm c = n) (upsert nm n new xs) = new # tl (filter (\<lambda>c. nm c = n) xs)"
  using assms by (cases rule: upsert_cases [of n nm xs new]) (auto simp: filter_pre)

lemma takeWhile_pre: "n \<notin> nm ` set pre \<Longrightarrow> nm c = n \<Longrightarrow> takeWhile (\<lambda>c. nm c \<noteq> n) (pre @ c # post) = pre"
  by (induction pre) auto

lemma upsert_index:
  "n \<in> nm ` set xs \<Longrightarrow> upsert nm n new xs = xs[firstIndex nm n xs := new]"
  by (cases rule: upsert_cases [of n nm xs new]) (auto simp: firstIndex_def takeWhile_pre)

lemma firstIndex_less:
  "n \<in> nm ` set xs \<Longrightarrow> firstIndex nm n xs < length xs \<and> nm (xs ! firstIndex nm n xs) = n"
  by (auto simp: firstIndex_def takeWhile_pre dest!: first_named)

lemma upsert_eq:
  "upsert nm n new xs = (if n \<in> nm ` set xs then xs[firstIndex nm n xs := new] else xs @ [new])"
  by (simp add: upsert_index upsert_absent)

lemma new_in_upsert: "new \<in> set (upsert nm n new xs)"
  by (cases rule: upsert_cases [of n nm xs new]) auto

section \<open>The merged document\<close>

lemma name_new [simp]:
  "NamedCluster.Name (newCluster n cert ep) = n"
  "NamedContext.Name (newContext n) = n"
  "NamedAuthInfo.Name (newUser n) = n"
  by (simp_all add: newCluster_def newContext_def newUser_def)

lemma merge_fields [simp]:
  "Clusters (mergeKubeconfig n cert ep d) =
     upsert NamedCluster.Name n (newCluster n cert ep) (Clusters d)"
  "Contexts (mergeKubeconfig n cert ep d) = upsert NamedContext.Name n (newContext n) (Contexts d)"
  "Users (mergeKubeconfig n cert ep d) = upsert NamedAuthInfo.Name n (newUser n) (Users d)"
  "CurrentContext (mergeKubeconfig n cert ep d) = n"
  "Kubeconfig.APIVersion (mergeKubeconfig n cert ep d) = Kubeconfig.APIVersion d"
  "Kind (mergeKubeconfig n cert ep d) = Kind d"
  "Preferences (mergeKubeconfig n cert ep d) = Preferences d"
  by (simp_all add: mergeKubeconfig_def)

lemma mergeKubeconfig_twice:
  "mergeKubeconfig n cert2 ep2 (mergeKubeconfig n cert1 ep1 d) = mergeKubeconfig n cert2 ep2 d"
  by (simp add: mergeKubeconfig_def upsert_twice)

lemma countNamed_upsert:
  "nm new = n \<Longrightarrow> countNamed nm n (upsert nm n new xs) = max 1 (countNamed nm n xs)"
  by (cases "filter (\<lambda>c. nm c = n) xs") (simp_all add: countNamed_def filter_upsert_named)

lemma filter_upsert_single:
  "nm new = n \<Longrightarrow> countNamed nm n xs \<le> 1 \<Longrightarrow> filter (\<lambda>c. nm c = n) (upsert nm n new xs) = [new]"
  by (cases "filter (\<lambda>c. nm c = n) xs") (simp_all add: countNamed_def filter_upsert_named)

text \<open>
  The merge itself keeps what the loaded document holds: in each sequence the number of
  entries stays when the name was present and grows by one when it was absent, the
  entries with other names are the same records in the same order, and the preferences,
  the API version and the kind are passed through.
\<close>

lemma merge_keeps_other_records:
  "length (Clusters (mergeKubeconfig n cert ep d)) =
     (if n \<in> NamedCluster.Name ` set (Clusters d) then length (Clusters d)
      else length (Clusters d) + 1)
   \<and> length (Contexts (mergeKubeconfig n cert ep d)) =
     (if n \<in> NamedContext.Name ` set (Contexts d) then length (Contexts d)
      else length (Contexts d) + 1)
   \<and> length (Users (mergeKubeconfig n cert ep d)) =
     (if n \<in> NamedAuthInfo.Name ` set (Users d) then length (Users d)
      else length (Users d) + 1)
   \<and> filter (\<lambda>c. NamedCluster.Name c \<noteq> n) (Clusters (mergeKubeconfig n cert ep d))
       = filter (\<lambda>c. NamedCluster.Name c \<noteq> n) (Clusters d)
   \<and> filter (\<lambda>c. NamedContext.Name c \<noteq> n) (Contexts (mergeKubeconfig n cert ep d))
       = filter (\<lambda>c. NamedContext.Name c \<noteq> n) (Contexts d)
   \<and> filter (\<lambda>c. NamedAuthInfo.Name c \<noteq> n) (Users (mergeKubeconfig n cert ep d))
       = filter (\<lambda>c. NamedAuthInfo.Name c \<noteq> n) (Users d)
   \<and> Preferences (mergeKubeconfig n cert ep d) = Preferences d
   \<and> Kubeconfig.APIVersion (mergeKubeconfig n cert ep d) = Kubeconfig.APIVersion d
   \<and> Kind (mergeKubeconfig n cert ep d) = Kind d"
  by (simp add: length_upsert filter_upsert_others)

section \<open>Directories and files\<close>

lemma nodeAt_upd:
  "p \<noteq> [] \<Longrightarrow> nodeAt (f(p \<mapsto> x)) q = (if q = p then Some x else nodeAt f q)"
  by (simp add: nodeAt_def)

lemma nodeAt_None_nonempty: "nodeAt f p = None \<Longrightarrow> p \<noteq> []"
  by (auto simp: nodeAt_def)

lemma walk_snoc:
  "walk f cur (cs @ [c]) =
     (case walk f cur cs of
        Inl err \<Rightarrow> Inl err
      | Inr (File bytes m) \<Rightarrow> Inl ENOTDIR
      | Inr (Dir m) \<Rightarrow>
          if ownerSearch m
          then (case nodeAt f (cur @ cs @ [c]) of None \<Rightarrow> Inl ENOENT | Some nd \<Rightarrow> Inr nd)
          else Inl EACCES)"
  by (induction cs arbitrary: cur) (auto split: option.splits node.splits)

lemma Stat_step:
  "p \<noteq> [] \<Longrightarrow>
   Stat f p =
     (case Stat f (filepath_Dir p) of
        Inl err \<Rightarrow> Inl err
      | Inr (File bytes m) \<Rightarrow> Inl ENOTDIR
      | Inr (Dir m) \<Rightarrow>
          if ownerSearch m
          then (case nodeAt f p of None \<Rightarrow> Inl ENOENT | Some nd \<Rightarrow> Inr nd)
          else Inl EACCES)"
proof -
  assume "p \<noteq> []"
  then have p: "butlast p @ [last p] = p" by simp
  have "walk f [] (butlast p @ [last p]) =
     (case walk f [] (butlast p) of
        Inl err \<Rightarrow> Inl err
      | Inr (File bytes m) \<Rightarrow> Inl ENOTDIR
      | Inr (Dir m) \<Rightarrow>
          if ownerSearch m
          then (case nodeAt f ([] @ butlast p @ [last p]) of None \<Rightarrow> Inl ENOENT | Some nd \<Rightarrow> Inr nd)
          else Inl EACCES)"
    by (rule walk_snoc)
  then show ?thesis
    unfolding Stat_def filepath_Dir_def append_Nil p .
qed

lemma Stat_root: "Stat f [] = Inr (Dir 493)"
  by (simp add: Stat_def nodeAt_def)

lemma Stat_Inr: "Stat f p = Inr nd \<Longrightarrow> nodeAt f p = Some nd"
  by (cases "p = []")
     (auto simp: Stat_root nodeAt_def Stat_step split: sum.splits node.splits if_splits option.splits)

lemma Stat_Inl_nonempty: "Stat f p = Inl err \<Longrightarrow> p \<noteq> []"
  by (auto simp: Stat_root)

text \<open>A path that does not exist below a directory that resolves.\<close>

lemma Stat_ENOENT_in_dir:
  "Stat f p = Inl ENOENT \<Longrightarrow> Stat f (filepath_Dir p) = Inr (Dir m) \<Longrightarrow>
   nodeAt f p = None \<and> ownerSearch m"
  by (frule Stat_Inl_nonempty)
     (auto simp: Stat_step [of p] split: if_splits option.splits)

lemma Stat_parent_Inl:
  "p \<noteq> [] \<Longrightarrow> Stat f (filepath_Dir p) = Inl err \<Longrightarrow> Stat f p = Inl err"
  by (simp add: Stat_step [of p])

lemma walk_cong:
  "(\<And>k. k \<le> length cs \<Longrightarrow> nodeAt f' (cur @ take k cs) = nodeAt f (cur @ take k cs)) \<Longrightarrow>
   walk f' cur cs = walk f cur cs"
proof (induction cs arbitrary: cur)
  case Nil
  from Nil [of 0] show ?case by simp
next
  case (Cons c cs)
  from Cons.prems [of 0] have here: "nodeAt f' cur = nodeAt f cur" by simp
  have "walk f' (cur @ [c]) cs = walk f (cur @ [c]) cs"
  proof (rule Cons.IH)
    fix k assume "k \<le> length cs"
    with Cons.prems [of "Suc k"]
    show "nodeAt f' ((cur @ [c]) @ take k cs) = nodeAt f ((cur @ [c]) @ take k cs)" by simp
  qed
  with here show ?case by (simp split: option.splits node.splits)
qed

lemma Stat_upd_other:
  assumes "q \<noteq> []" "\<And>k. take k p \<noteq> q"
  shows "Stat (f(q \<mapsto> x)) p = Stat f p"
  unfolding Stat_def
  by (rule walk_cong) (use assms nodeAt_upd [of q f x] in auto)

lemma take_butlast_neq: "p \<noteq> [] \<Longrightarrow> take k (butlast p) \<noteq> p"
proof
  assume ne: "p \<noteq> []" and eq: "take k (butlast p) = p"
  have "length (take k (butlast p)) \<le> length p - 1" by simp
  with eq ne show False by (cases p) auto
qed

lemma Mkdir_Inr:
  "Mkdir f u p perm = Inr f' \<Longrightarrow>
   nodeAt f p = None \<and> f' = f(p \<mapsto> Dir (beforeUmask u perm)) \<and>
   (\<exists>m. Stat f (filepath_Dir p) = Inr (Dir m) \<and> ownerWrite m \<and> ownerSearch m)"
  by (auto simp: Mkdir_def split: sum.splits node.splits if_splits dest: Stat_ENOENT_in_dir)


declare MkdirAll.simps [simp del]

lemma MkdirAll_Inr_Stat:
  "Stat f p = Inr nd \<Longrightarrow> MkdirAll f u p perm = (e, f') \<Longrightarrow> f' = f"
  by (subst (asm) MkdirAll.simps) (auto split: node.splits)

lemma MkdirAll_Inl_Stat:
  assumes "Stat f p = Inl err" "MkdirAll f u p perm = (e, f')"
  obtains e1 f1 where "MkdirAll f u (filepath_Dir p) perm = (e1, f1)"
    and "f' = f1 \<or> (nodeAt f1 p = None \<and> e = None \<and> f' = f1(p \<mapsto> Dir (beforeUmask u perm)))"
    and "e = None \<Longrightarrow> f' = f1 \<Longrightarrow> \<exists>m. Stat f1 p = Inr (Dir m)"
proof -
  obtain e1 f1 where r: "MkdirAll f u (filepath_Dir p) perm = (e1, f1)"
    by (cases "MkdirAll f u (filepath_Dir p) perm")
  from assms r
  have a: "f' = f1 \<or> (nodeAt f1 p = None \<and> e = None \<and> f' = f1(p \<mapsto> Dir (beforeUmask u perm)))"
    by (subst (asm) MkdirAll.simps)
       (auto split: option.splits sum.splits node.splits dest: Mkdir_Inr)
  have b: "\<exists>m. Stat f1 p = Inr (Dir m)" if "e = None" "f' = f1"
  proof -
    have ne: "p \<noteq> []" using assms(1) by (rule Stat_Inl_nonempty)
    from assms r that show ?thesis
      apply (subst (asm) MkdirAll.simps)
      apply (auto split: option.splits sum.splits node.splits dest!: Mkdir_Inr)
      using ne nodeAt_upd [of p f1 "Dir (beforeUmask u perm)" p]
      apply (metis option.distinct(1))
      done
  qed
  from r a b show ?thesis by (rule that)
qed

lemma prefix_of_parent:
  "(\<exists>k. q = take k (filepath_Dir p)) \<Longrightarrow> (\<exists>k. q = take k p)"
proof -
  assume "\<exists>k. q = take k (filepath_Dir p)"
  then obtain k where "q = take k (butlast p)" by (auto simp: filepath_Dir_def)
  then have "q = take (min k (length p - 1)) p" by (simp add: butlast_conv_take)
  then show ?thesis by blast
qed

lemma MkdirAll_frame:
  "MkdirAll f u p perm = (e, f') \<Longrightarrow>
   nodeAt f' q = nodeAt f q \<or>
   (nodeAt f q = None \<and> nodeAt f' q = Some (Dir (beforeUmask u perm)) \<and> (\<exists>k. q = take k p))"
proof (induction f u p perm arbitrary: e f' rule: MkdirAll.induct)
  case (1 f u p perm)
  show ?case
  proof (cases "Stat f p")
    case (Inr nd)
    from Inr "1.prems" have "f' = f" by (rule MkdirAll_Inr_Stat)
    then show ?thesis by simp
  next
    case (Inl err)
    then have ne: "p \<noteq> []" by (rule Stat_Inl_nonempty)
    from Inl "1.prems" obtain e1 f1 where r: "MkdirAll f u (filepath_Dir p) perm = (e1, f1)"
      and a: "f' = f1 \<or> (nodeAt f1 p = None \<and> e = None \<and> f' = f1(p \<mapsto> Dir (beforeUmask u perm)))"
      by (rule MkdirAll_Inl_Stat)
    from "1.IH" [OF Inl r]
    have ih: "nodeAt f1 q = nodeAt f q \<or>
       (nodeAt f q = None \<and> nodeAt f1 q = Some (Dir (beforeUmask u perm))
          \<and> (\<exists>k. q = take k (filepath_Dir p)))" .
    from a show ?thesis
    proof
      assume "f' = f1"
      with ih prefix_of_parent [of q p] show ?thesis by auto
    next
      assume b: "nodeAt f1 p = None \<and> e = None \<and> f' = f1(p \<mapsto> Dir (beforeUmask u perm))"
      show ?thesis
      proof (cases "q = p")
        case True
        have "p = take (length p) p" by simp
        then have ex: "\<exists>k. q = take k p" using True by blast
        have new: "nodeAt f' p = Some (Dir (beforeUmask u perm))"
          using b ne nodeAt_upd [of p f1 "Dir (beforeUmask u perm)" p] by simp
        from ih b True have "nodeAt f p = None" by auto
        with ex new True show ?thesis by simp
      next
        case False
        with b ne have "nodeAt f' q = nodeAt f1 q"
          using nodeAt_upd [of p f1 "Dir (beforeUmask u perm)" q] by simp
        with ih prefix_of_parent [of q p] show ?thesis by auto
      qed
    qed
  qed
qed

lemma MkdirAll_made:
  assumes "MkdirAll f u p perm = (None, f')"
  shows "\<exists>m. nodeAt f' p = Some (Dir m) \<and> (nodeAt f p = None \<longrightarrow> m = beforeUmask u perm)"
proof (cases "Stat f p")
  case (Inr nd)
  from Inr assms have "f' = f" by (rule MkdirAll_Inr_Stat)
  moreover from Inr assms have "\<exists>m. nd = Dir m"
    by (subst (asm) MkdirAll.simps) (auto split: node.splits)
  ultimately show ?thesis using Stat_Inr [OF Inr] by auto
next
  case (Inl err)
  then have ne: "p \<noteq> []" by (rule Stat_Inl_nonempty)
  from Inl assms obtain e1 f1 where r: "MkdirAll f u (filepath_Dir p) perm = (e1, f1)"
    and a: "f' = f1 \<or> (nodeAt f1 p = None \<and> f' = f1(p \<mapsto> Dir (beforeUmask u perm)))"
    and c: "f' = f1 \<Longrightarrow> \<exists>m. Stat f1 p = Inr (Dir m)"
    by (rule MkdirAll_Inl_Stat) auto
  from a show ?thesis
  proof
    assume eq: "f' = f1"
    from c [OF eq] obtain m where m: "nodeAt f1 p = Some (Dir m)" by (auto dest: Stat_Inr)
    from MkdirAll_frame [OF r, of p] m
    have "nodeAt f p = None \<longrightarrow> m = beforeUmask u perm" by auto
    with m eq show ?thesis by simp
  next
    assume "nodeAt f1 p = None \<and> f' = f1(p \<mapsto> Dir (beforeUmask u perm))"
    with ne show ?thesis using nodeAt_upd [of p f1 "Dir (beforeUmask u perm)" p] by simp
  qed
qed

lemma WriteFile_Inr:
  assumes "WriteFile f u p bytes perm = Inr f'"
  shows "p \<noteq> [] \<and>
     f' = f(p \<mapsto> File bytes (case nodeAt f p of Some (File old m) \<Rightarrow> m
                                  | _ \<Rightarrow> beforeUmask u perm)) \<and>
     (\<forall>m. nodeAt f p \<noteq> Some (Dir m))"
proof -
  have ne: "p \<noteq> []" using assms by (auto simp: WriteFile_def Stat_root)
  consider (old) old m where "Stat f p = Inr (File old m)" "f' = f(p \<mapsto> File bytes m)"
    | (new) m where "Stat f p = Inl ENOENT" "Stat f (filepath_Dir p) = Inr (Dir m)"
        "f' = f(p \<mapsto> File bytes (beforeUmask u perm))"
    using assms by (auto simp: WriteFile_def split: sum.splits node.splits if_splits)
  then show ?thesis
  proof cases
    case old
    from Stat_Inr [OF old(1)] old(2) ne show ?thesis by simp
  next
    case new
    from Stat_ENOENT_in_dir [OF new(1,2)] new(3) ne show ?thesis by simp
  qed
qed

section \<open>Writing and the handler\<close>

lemma butlast_neq: "p \<noteq> [] \<Longrightarrow> butlast p \<noteq> p"
  by (cases p rule: rev_cases) auto

lemma writeKubeconfig_None:
  assumes "writeKubeconfig y f u p d = (None, f')"
  shows "\<exists>bytes. Marshal y d = Some bytes
           \<and> nodeAt f' p = Some (File bytes (case nodeAt f p of Some (File old m) \<Rightarrow> m | _ \<Rightarrow> beforeUmask u 384))
           \<and> (nodeAt f (filepath_Dir p) = None \<longrightarrow> nodeAt f' (filepath_Dir p) = Some (Dir (beforeUmask u 493)))
           \<and> (\<forall>q. q \<noteq> p \<longrightarrow>
                 nodeAt f' q = nodeAt f q \<or>
                 (nodeAt f q = None \<and> nodeAt f' q = Some (Dir (beforeUmask u 493))
                    \<and> (\<exists>k. q = take k (filepath_Dir p))))"
proof -
  let ?kd = "filepath_Dir p"
  from assms obtain bytes where m: "Marshal y d = Some bytes"
    by (auto simp: writeKubeconfig_def split: option.splits)
  define made where "made = (case Stat f ?kd of
                         Inl err \<Rightarrow> if IsNotExist err then MkdirAll f u ?kd 493 else (None, f)
                       | Inr info \<Rightarrow> (None, f))"
  from assms m obtain f1 where made: "made = (None, f1)"
    and wr: "WriteFile f1 u p bytes 384 = Inr f'"
    by (auto simp: writeKubeconfig_def Let_def made_def split: option.splits prod.splits sum.splits)
  from WriteFile_Inr [OF wr] have ne: "p \<noteq> []"
    and f': "f' = f1(p \<mapsto> File bytes (case nodeAt f1 p of Some (File old m) \<Rightarrow> m | _ \<Rightarrow> beforeUmask u 384))"
    and notdir: "\<And>m. nodeAt f1 p \<noteq> Some (Dir m)"
    by auto
  consider (there) nd where "Stat f ?kd = Inr nd" "f1 = f"
    | (missing) "Stat f ?kd = Inl ENOENT" "MkdirAll f u ?kd 493 = (None, f1)"
    | (other) err where "Stat f ?kd = Inl err" "err \<noteq> ENOENT" "f1 = f"
    using made by (auto simp: made_def IsNotExist_def split: sum.splits if_splits)
  note stat = this
  have frame: "nodeAt f1 q = nodeAt f q \<or>
     (nodeAt f q = None \<and> nodeAt f1 q = Some (Dir (beforeUmask u 493)) \<and> (\<exists>k. q = take k ?kd))" for q
    by (cases rule: stat) (auto dest: MkdirAll_frame)
  have same: "nodeAt f1 p = nodeAt f p"
    using frame [of p] notdir by auto
  have dir: "nodeAt f ?kd = None \<longrightarrow> nodeAt f1 ?kd = Some (Dir (beforeUmask u 493))"
  proof
    assume n: "nodeAt f ?kd = None"
    show "nodeAt f1 ?kd = Some (Dir (beforeUmask u 493))"
    proof (cases rule: stat)
      case (there nd)
      with n show ?thesis by (auto dest: Stat_Inr)
    next
      case missing
      from MkdirAll_made [OF missing(2)] n show ?thesis by auto
    next
      case (other err)
      from Stat_parent_Inl [OF ne other(1)] have "Stat f p = Inl err" .
      with other(2,3) wr show ?thesis by (simp add: WriteFile_def)
    qed
  qed
  have other: "\<And>q. q \<noteq> p \<Longrightarrow> nodeAt f' q = nodeAt f1 q"
    using ne f' nodeAt_upd [of p f1] by simp
  have self: "nodeAt f' p = Some (File bytes (case nodeAt f p of Some (File old m) \<Rightarrow> m | _ \<Rightarrow> beforeUmask u 384))"
    using ne f' same nodeAt_upd [of p f1 _ p] by simp
  have dne: "?kd \<noteq> p" using ne by (simp add: filepath_Dir_def butlast_neq)
  from m self dir other frame dne show ?thesis by auto
qed


lemma writeKubeconfig_overwrite:
  assumes "Marshal y d = Some bytes" "Stat f p = Inr (File old m)" "ownerWrite m"
  shows "writeKubeconfig y f u p d = (None, f(p \<mapsto> File bytes m))"
proof -
  have "p \<noteq> []" using assms(2) by (auto simp: Stat_root)
  with assms(2) obtain nd where "Stat f (filepath_Dir p) = Inr nd"
    by (auto simp: Stat_step [of p] split: sum.splits)
  with assms show ?thesis by (simp add: writeKubeconfig_def Let_def WriteFile_def)
qed

lemma writeKubeconfig_dir_missing:
  assumes "Marshal y d = Some bytes" "nodeAt f p = None"
    "Stat f (filepath_Dir p) = Inl ENOENT"
    "Stat f (filepath_Dir (filepath_Dir p)) = Inr (Dir m)" "ownerWrite m"
    "ownerWrite (beforeUmask u 493)" "ownerSearch (beforeUmask u 493)"
  shows "writeKubeconfig y f u p d =
           (None, f(filepath_Dir p \<mapsto> Dir (beforeUmask u 493),
                    p \<mapsto> File bytes (beforeUmask u 384)))"
proof -
  let ?kd = "filepath_Dir p"
  let ?f1 = "f(?kd \<mapsto> Dir (beforeUmask u 493))"
  have ne: "p \<noteq> []" "?kd \<noteq> []"
    using assms(2,3) by (auto dest: nodeAt_None_nonempty Stat_Inl_nonempty)
  have dne: "?kd \<noteq> p" using ne by (simp add: filepath_Dir_def butlast_neq)
  from Stat_ENOENT_in_dir [OF assms(3,4)] have kd: "nodeAt f ?kd = None" and sm: "ownerSearch m"
    by auto
  have "MkdirAll f u (filepath_Dir ?kd) 493 = (None, f)"
    using assms(4) by (subst MkdirAll.simps) simp
  moreover have "Mkdir f u ?kd 493 = Inr ?f1"
    using assms(3-5) by (simp add: Mkdir_def)
  ultimately have mk: "MkdirAll f u ?kd 493 = (None, ?f1)"
    using assms(3) by (subst MkdirAll.simps) simp
  have "Stat ?f1 (filepath_Dir ?kd) = Stat f (filepath_Dir ?kd)"
    using ne(2) by (intro Stat_upd_other) (simp_all add: filepath_Dir_def take_butlast_neq)
  with assms(4) sm ne(2) have s1: "Stat ?f1 ?kd = Inr (Dir (beforeUmask u 493))"
    using nodeAt_upd [of ?kd f "Dir (beforeUmask u 493)" ?kd]
    by (simp add: Stat_step [of ?kd])
  have "nodeAt ?f1 p = None"
    using assms(2) ne dne nodeAt_upd [of ?kd f "Dir (beforeUmask u 493)" p] by simp
  with s1 assms(7) ne(1) have s2: "Stat ?f1 p = Inl ENOENT"
    by (simp add: Stat_step [of p])
  have "WriteFile ?f1 u p bytes 384 = Inr (?f1(p \<mapsto> File bytes (beforeUmask u 384)))"
    using s1 s2 assms(6) by (simp add: WriteFile_def)
  with mk assms(1,3) show ?thesis
    by (simp add: writeKubeconfig_def Let_def IsNotExist_def)
qed

lemma getKubeconfig_resolved:
  assumes "getKubeconfigArgs.Name args \<noteq> []"
    and "GetCluster h (requestName h args) = Inr resp"
    and "GetClusterCaCertificate (MasterAuth resp) \<noteq> []"
    and "Endpoint resp \<noteq> []"
    and "HOME w = Some homeDir"
  shows "getKubeconfig h y args w =
     (case loadKubeconfig y (fs w) (kubeconfigPathOf homeDir) of
        Inl e \<Rightarrow> (Inl e, w)
      | Inr existingKubeconfig \<Rightarrow>
          (case writeKubeconfig y (fs w) (umask w) (kubeconfigPathOf homeDir)
                  (mergeKubeconfig
                     (newClusterName (projectOf h args) (locationOf h args) (getKubeconfigArgs.Name args))
                     (GetClusterCaCertificate (MasterAuth resp))
                     (secureEndpoint (Endpoint resp)) existingKubeconfig) of
             (Some e, f') \<Rightarrow> (Inl e, w\<lparr>fs := f'\<rparr>)
           | (None, f') \<Rightarrow>
               (Inr (successText (getKubeconfigArgs.Name args) (projectOf h args) (locationOf h args)
                       (kubeconfigPathOf homeDir)
                       (newClusterName (projectOf h args) (locationOf h args)
                          (getKubeconfigArgs.Name args))),
                w\<lparr>fs := f'\<rparr>)))"
  using assms by (simp add: getKubeconfig_def Let_def)

lemma getKubeconfig_Inr:
  assumes "getKubeconfig h y args w = (Inr msg, w')"
  shows "\<exists>resp homeDir existing f'.
           getKubeconfigArgs.Name args \<noteq> []
         \<and> GetCluster h (requestName h args) = Inr resp
         \<and> GetClusterCaCertificate (MasterAuth resp) \<noteq> []
         \<and> Endpoint resp \<noteq> []
         \<and> HOME w = Some homeDir
         \<and> loadKubeconfig y (fs w) (kubeconfigPathOf homeDir) = Inr existing
         \<and> writeKubeconfig y (fs w) (umask w) (kubeconfigPathOf homeDir)
              (mergeKubeconfig
                 (newClusterName (projectOf h args) (locationOf h args) (getKubeconfigArgs.Name args))
                 (GetClusterCaCertificate (MasterAuth resp))
                 (secureEndpoint (Endpoint resp)) existing) = (None, f')
         \<and> w' = w\<lparr>fs := f'\<rparr>"
  using assms
  by (auto simp: getKubeconfig_def Let_def split: if_splits sum.splits option.splits prod.splits)

lemma loadKubeconfig_missing:
  "ReadFile f p = Inl ENOENT \<Longrightarrow>
   loadKubeconfig y f p =
     Inr \<lparr>Kubeconfig.APIVersion = ''v1'', Clusters = [], Contexts = [], CurrentContext = [],
          Kind = ''Config'', Preferences = Map.empty, Users = []\<rparr>"
  by (simp add: loadKubeconfig_def IsNotExist_def)


lemma upsert_Nil: "upsert nm n new [] = [new]"
  using upsert_absent [of n nm "[]" new] by simp

lemma merge_new:
  "mergeKubeconfig n cert ep
     \<lparr>Kubeconfig.APIVersion = ''v1'', Clusters = [], Contexts = [], CurrentContext = [],
      Kind = ''Config'', Preferences = Map.empty, Users = []\<rparr>
   = \<lparr>Kubeconfig.APIVersion = ''v1'', Clusters = [newCluster n cert ep],
      Contexts = [newContext n], CurrentContext = n,
      Kind = ''Config'', Preferences = Map.empty, Users = [newUser n]\<rparr>"
  by (simp add: mergeKubeconfig_def upsert_Nil)

section \<open>The example runs\<close>

lemma Dir_kubeconfigPathOf:
  "filepath_Dir (kubeconfigPathOf homeDir) = homeDir @ [''.kube'']"
  "filepath_Dir (filepath_Dir (kubeconfigPathOf homeDir)) = homeDir"
  "filepath_Dir (homeDir @ [''.kube'']) = homeDir"
  by (simp_all add: kubeconfigPathOf_def filepath_Join_def filepath_Dir_def butlast_append)

lemma example_request:
  "getKubeconfigArgs.Name exampleArgs = ''demo''"
  "projectOf h exampleArgs = ''p1''"
  "locationOf h exampleArgs = ''us-central1''"
  "newClusterName ''p1'' ''us-central1'' ''demo'' = demoName"
  by (simp_all add: exampleArgs_def projectOf_def locationOf_def demoName_def)

lemma example_resolved:
  "GetCluster exampleHandlers r
     = Inr \<lparr>MasterAuth = Some \<lparr>ClusterCaCertificate = ''BASE64CERT''\<rparr>, Endpoint = ''10.0.0.1''\<rparr>"
  "GetClusterCaCertificate (Some \<lparr>ClusterCaCertificate = ''BASE64CERT''\<rparr>) = ''BASE64CERT''"
  "secureEndpoint ''10.0.0.1'' = ''https://10.0.0.1''"
  by (simp_all add: exampleHandlers_def GetClusterCaCertificate_def secureEndpoint_def HasPrefix_def)

lemma example_home:
  "HOME freshWorld = Some [''home'', ''u'']"
  "HOME existingWorld = Some [''home'', ''u'']"
  "HOME brokenWorld = Some [''home'', ''u'']"
  "kubeconfigPathOf [''home'', ''u''] = [''home'', ''u'', ''.kube'', ''config'']"
  "HOME readOnlyHomeWorld = Some [''home'', ''u'']"
  "HOME kubeIsFileWorld = Some [''home'', ''u'']"
  "HOME tokenWorld = Some [''home'', ''u'']"
  by (simp_all add: freshWorld_def existingWorld_def brokenWorld_def kubeconfigPathOf_def
      filepath_Join_def readOnlyHomeWorld_def kubeIsFileWorld_def tokenWorld_def)

lemma example_umask:
  "umask freshWorld = 18"
  "umask existingWorld = 18"
  "beforeUmask 18 493 = 493"
  "beforeUmask 18 384 = 384"
  "umask readOnlyHomeWorld = 18"
  "umask tokenWorld = 18"
  by (simp_all add: freshWorld_def existingWorld_def beforeUmask_def readOnlyHomeWorld_def
      tokenWorld_def)

lemma ownerOnly_created_file: "ownerOnly (beforeUmask u 384)"
proof -
  have "((384 :: 32 word) AND NOT u) AND 63 = (384 AND 63) AND NOT u"
    by (simp add: ac_simps)
  also have "(384 :: 32 word) AND 63 = 0" by simp
  finally show ?thesis by (simp add: ownerOnly_def beforeUmask_def)
qed

lemma mode_bits:
  "ownerOnly 384" "\<not> ownerOnly 493" "\<not> ownerOnly 420" "ownerOnly 448"
  by (simp_all add: ownerOnly_def)

lemma owner_bits:
  "ownerWrite 448" "ownerSearch 448" "ownerWrite 493" "ownerSearch 493"
  "ownerWrite 420" "ownerRead 420" "ownerWrite 384" "ownerRead 384"
  "\<not> ownerWrite 320" "ownerSearch 320"
  by (simp_all add: ownerWrite_def ownerSearch_def ownerRead_def)

text \<open>What \<^verbatim>\<open>Stat\<close> and \<^verbatim>\<open>ReadFile\<close> find on the example machines.\<close>

lemma at_freshWorld:
  "Stat (fs freshWorld) [''home'', ''u''] = Inr (Dir 448)"
  "Stat (fs freshWorld) [''home'', ''u'', ''.kube''] = Inl ENOENT"
  "ReadFile (fs freshWorld) [''home'', ''u'', ''.kube'', ''config''] = Inl ENOENT"
  "nodeAt (fs freshWorld) [''home'', ''u'', ''.kube'', ''config''] = None"
  by (simp_all add: Stat_def ReadFile_def freshWorld_def nodeAt_def owner_bits)

lemma at_existingWorld:
  "Stat (fs existingWorld) [''home'', ''u'', ''.kube'', ''config'']
     = Inr (File ''apiVersion: v1 ...'' 420)"
  by (simp add: Stat_def existingWorld_def nodeAt_def owner_bits)

lemma at_brokenWorld:
  "ReadFile (fs brokenWorld) (kubeconfigPathOf [''home'', ''u'']) = Inr ''clusters: [unclosed''"
  "Unmarshal exampleYaml ''clusters: [unclosed'' = None"
  by (simp_all add: Stat_def ReadFile_def brokenWorld_def nodeAt_def example_home owner_bits
      exampleYaml_def)



lemma at_tokenWorld:
  "Stat (fs tokenWorld) [''home'', ''u'', ''.kube'', ''config''] = Inr (File tokenText 384)"
  "ReadFile (fs tokenWorld) [''home'', ''u'', ''.kube'', ''config''] = Inr tokenText"
  by (simp_all add: Stat_def ReadFile_def tokenWorld_def nodeAt_def owner_bits)

text \<open>The scenario on the machine without \<^verbatim>\<open>.kube\<close>.\<close>

lemma run_freshWorld:
  "getKubeconfig exampleHandlers exampleYaml exampleArgs freshWorld =
     (Inr (successText ''demo'' ''p1'' ''us-central1'' [''home'', ''u'', ''.kube'', ''config'']
             demoName),
      freshWorld\<lparr>fs := (fs freshWorld)
         ([''home'', ''u'', ''.kube''] \<mapsto> Dir 493,
          [''home'', ''u'', ''.kube'', ''config''] \<mapsto>
            File ''current-context: gke_p1_us-central1_demo; clusters: gke_p1_us-central1_demo https://10.0.0.1; '' 384)\<rparr>)"
proof -
  have ld: "loadKubeconfig exampleYaml (fs freshWorld) [''home'', ''u'', ''.kube'', ''config'']
      = Inr \<lparr>Kubeconfig.APIVersion = ''v1'', Clusters = [], Contexts = [], CurrentContext = [],
          Kind = ''Config'', Preferences = Map.empty, Users = []\<rparr>"
    by (rule loadKubeconfig_missing) (rule at_freshWorld)
  have wr: "writeKubeconfig exampleYaml (fs freshWorld) 18 [''home'', ''u'', ''.kube'', ''config'']
       \<lparr>Kubeconfig.APIVersion = ''v1'', Clusters = [newCluster demoName ''BASE64CERT'' ''https://10.0.0.1''],
        Contexts = [newContext demoName], CurrentContext = demoName,
        Kind = ''Config'', Preferences = Map.empty, Users = [newUser demoName]\<rparr>
      = (None, (fs freshWorld)
         (filepath_Dir [''home'', ''u'', ''.kube'', ''config''] \<mapsto> Dir 493,
          [''home'', ''u'', ''.kube'', ''config''] \<mapsto>
            File ''current-context: gke_p1_us-central1_demo; clusters: gke_p1_us-central1_demo https://10.0.0.1; '' 384))"
    using writeKubeconfig_dir_missing [where m = 448 and u = 18 and y = exampleYaml
        and f = "fs freshWorld" and p = "[''home'', ''u'', ''.kube'', ''config'']"]
    by (simp add: exampleYaml_def at_freshWorld filepath_Dir_def owner_bits
          demoName_def newClusterName_def newCluster_def example_umask)
  show ?thesis
    by (subst getKubeconfig_resolved [OF _ example_resolved(1) _ _ example_home(1)])
       (simp_all add: example_request example_resolved example_home example_umask ld merge_new wr
          filepath_Dir_def)
qed

text \<open>The scenario on the machine whose \<^verbatim>\<open>config\<close> parses to \<open>exampleKubeconfig\<close>.\<close>

lemma run_existingWorld:
  "getKubeconfig exampleHandlers exampleYaml exampleArgs existingWorld =
     (Inr (successText ''demo'' ''p1'' ''us-central1'' [''home'', ''u'', ''.kube'', ''config'']
             demoName),
      existingWorld\<lparr>fs := (fs existingWorld)
         ([''home'', ''u'', ''.kube'', ''config''] \<mapsto>
            File ''current-context: gke_p1_us-central1_demo; clusters: minikube https://192.168.49.2:8443; gke_p1_us-central1_demo https://10.0.0.1; kind-dev https://127.0.0.1:6443; '' 420)\<rparr>)"
proof -
  have ld: "loadKubeconfig exampleYaml (fs existingWorld) [''home'', ''u'', ''.kube'', ''config'']
      = Inr exampleKubeconfig"
    by (simp add: loadKubeconfig_def ReadFile_def at_existingWorld owner_bits
        exampleYaml_def exampleKubeconfig_def)
  have cl: "upsert NamedCluster.Name demoName (newCluster demoName ''BASE64CERT'' ''https://10.0.0.1'')
        (Clusters exampleKubeconfig)
      = [newCluster ''minikube'' ''MINICERT'' ''https://192.168.49.2:8443'']
          @ newCluster demoName ''BASE64CERT'' ''https://10.0.0.1''
          # [newCluster ''kind-dev'' ''KINDCERT'' ''https://127.0.0.1:6443'']"
    by (simp add: exampleKubeconfig_def)
       (rule upsert_first [of _ _ "[_]" _ _ "[_]", simplified],
        simp_all add: demoName_def newClusterName_def)
  have "Marshal exampleYaml (mergeKubeconfig demoName ''BASE64CERT'' ''https://10.0.0.1'' exampleKubeconfig)
      = Some (''current-context: '' @ demoName @ ''; clusters: minikube https://192.168.49.2:8443; ''
              @ demoName @ '' https://10.0.0.1; kind-dev https://127.0.0.1:6443; '')"
    by (simp add: exampleYaml_def cl) (simp add: newCluster_def)
  then have ms: "Marshal exampleYaml (mergeKubeconfig demoName ''BASE64CERT'' ''https://10.0.0.1'' exampleKubeconfig)
      = Some ''current-context: gke_p1_us-central1_demo; clusters: minikube https://192.168.49.2:8443; gke_p1_us-central1_demo https://10.0.0.1; kind-dev https://127.0.0.1:6443; ''"
    by (simp add: demoName_def newClusterName_def)
  have wr: "writeKubeconfig exampleYaml (fs existingWorld) 18 [''home'', ''u'', ''.kube'', ''config'']
       (mergeKubeconfig demoName ''BASE64CERT'' ''https://10.0.0.1'' exampleKubeconfig)
      = (None, (fs existingWorld)
         ([''home'', ''u'', ''.kube'', ''config''] \<mapsto>
            File ''current-context: gke_p1_us-central1_demo; clusters: minikube https://192.168.49.2:8443; gke_p1_us-central1_demo https://10.0.0.1; kind-dev https://127.0.0.1:6443; '' 420))"
    by (rule writeKubeconfig_overwrite [OF ms at_existingWorld]) (rule owner_bits)
  show ?thesis
    by (subst getKubeconfig_resolved [OF _ example_resolved(1) _ _ example_home(2)])
       (simp_all add: example_request example_resolved example_home example_umask ld wr
          del: merge_fields)
qed



text \<open>The scenario on the machine whose \<^verbatim>\<open>config\<close> is \<open>tokenText\<close>.\<close>

lemma run_tokenWorld:
  "getKubeconfig exampleHandlers tokenYaml exampleArgs tokenWorld =
     (Inr (successText ''demo'' ''p1'' ''us-central1'' [''home'', ''u'', ''.kube'', ''config'']
             demoName),
      tokenWorld\<lparr>fs := (fs tokenWorld)
         ([''home'', ''u'', ''.kube'', ''config''] \<mapsto>
            File (showKubeconfig
                   (mergeKubeconfig demoName ''BASE64CERT'' ''https://10.0.0.1'' tokenKubeconfig))
              384)\<rparr>)"
proof -
  have ld: "loadKubeconfig tokenYaml (fs tokenWorld) [''home'', ''u'', ''.kube'', ''config'']
      = Inr tokenKubeconfig"
    by (simp add: loadKubeconfig_def at_tokenWorld tokenYaml_def) (simp add: tokenKubeconfig_def)
  have ms: "Marshal tokenYaml d = Some (showKubeconfig d)" for d :: "string Kubeconfig"
    by (simp add: tokenYaml_def)
  have wr: "writeKubeconfig tokenYaml (fs tokenWorld) 18 [''home'', ''u'', ''.kube'', ''config''] d
      = (None, (fs tokenWorld)
         ([''home'', ''u'', ''.kube'', ''config''] \<mapsto> File (showKubeconfig d) 384))"
    for d :: "string Kubeconfig"
    by (rule writeKubeconfig_overwrite [OF ms at_tokenWorld(1)]) (rule owner_bits)
  show ?thesis
    by (subst getKubeconfig_resolved [OF _ example_resolved(1) _ _ example_home(7)])
       (simp_all add: example_request example_resolved example_home example_umask ld wr
          del: merge_fields)
qed

lemma secureEndpoint_https: "HasPrefix (secureEndpoint endpoint) ''https://''"
  by (simp add: secureEndpoint_def HasPrefix_def)

section \<open>The claims about the merge\<close>

text \<open>
  C1 (as amended). Let the loaded document hold at most one entry named \<open>n\<close> in each of
  its three sequences. After two merges for \<open>n\<close>, the second with other certificate and
  endpoint values, each sequence holds exactly one entry named \<open>n\<close>, the one built from
  the second call's values; where the name was present the entry sits at the index of
  the old one, in a sequence of the same length, and where it was absent it is the one
  entry appended. This holds for every name \<open>n\<close>, so for the derived name
  \<^verbatim>\<open>gke_<projectID>_<location>_<clusterName>\<close>.
\<close>

theorem upsert_twice_one_entry:
  assumes "countNamed NamedCluster.Name n (Clusters d) \<le> 1"
    and "countNamed NamedContext.Name n (Contexts d) \<le> 1"
    and "countNamed NamedAuthInfo.Name n (Users d) \<le> 1"
    and "d2 = mergeKubeconfig n cert2 ep2 (mergeKubeconfig n cert1 ep1 d)"
  shows "filter (\<lambda>c. NamedCluster.Name c = n) (Clusters d2) = [newCluster n cert2 ep2]
       \<and> filter (\<lambda>c. NamedContext.Name c = n) (Contexts d2) = [newContext n]
       \<and> filter (\<lambda>c. NamedAuthInfo.Name c = n) (Users d2) = [newUser n]
       \<and> Clusters d2 =
           (if n \<in> NamedCluster.Name ` set (Clusters d)
            then (Clusters d)[firstIndex NamedCluster.Name n (Clusters d) := newCluster n cert2 ep2]
            else Clusters d @ [newCluster n cert2 ep2])
       \<and> Contexts d2 =
           (if n \<in> NamedContext.Name ` set (Contexts d)
            then (Contexts d)[firstIndex NamedContext.Name n (Contexts d) := newContext n]
            else Contexts d @ [newContext n])
       \<and> Users d2 =
           (if n \<in> NamedAuthInfo.Name ` set (Users d)
            then (Users d)[firstIndex NamedAuthInfo.Name n (Users d) := newUser n]
            else Users d @ [newUser n])"
proof -
  have d2: "d2 = mergeKubeconfig n cert2 ep2 d"
    using assms(4) by (simp add: mergeKubeconfig_twice)
  have one: "filter (\<lambda>c. NamedCluster.Name c = n) (Clusters d2) = [newCluster n cert2 ep2]"
    "filter (\<lambda>c. NamedContext.Name c = n) (Contexts d2) = [newContext n]"
    "filter (\<lambda>c. NamedAuthInfo.Name c = n) (Users d2) = [newUser n]"
    using assms(1-3) by (simp_all add: d2 filter_upsert_single)
  have at: "Clusters d2 =
           (if n \<in> NamedCluster.Name ` set (Clusters d)
            then (Clusters d)[firstIndex NamedCluster.Name n (Clusters d) := newCluster n cert2 ep2]
            else Clusters d @ [newCluster n cert2 ep2])"
    "Contexts d2 =
           (if n \<in> NamedContext.Name ` set (Contexts d)
            then (Contexts d)[firstIndex NamedContext.Name n (Contexts d) := newContext n]
            else Contexts d @ [newContext n])"
    "Users d2 =
           (if n \<in> NamedAuthInfo.Name ` set (Users d)
            then (Users d)[firstIndex NamedAuthInfo.Name n (Users d) := newUser n]
            else Users d @ [newUser n])"
    unfolding d2 merge_fields by (rule upsert_eq)+
  from one at show ?thesis by blast
qed

text \<open>
  The theorem at \<open>exampleKubeconfig\<close>, where the name is present once, at index 1 of 3:
  the entry at index 1 holds the second call's values and the neighbours are as before.
\<close>

theorem upsert_twice_one_entry_witness:
  "countNamed NamedCluster.Name demoName (Clusters exampleKubeconfig) \<le> 1
   \<and> countNamed NamedContext.Name demoName (Contexts exampleKubeconfig) \<le> 1
   \<and> countNamed NamedAuthInfo.Name demoName (Users exampleKubeconfig) \<le> 1
   \<and> filter (\<lambda>c. NamedCluster.Name c = demoName)
        (Clusters (mergeKubeconfig demoName ''CERT2'' ''https://10.0.0.2''
                    (mergeKubeconfig demoName ''CERT1'' ''https://10.0.0.1'' exampleKubeconfig)))
      = [newCluster demoName ''CERT2'' ''https://10.0.0.2'']
   \<and> Clusters (mergeKubeconfig demoName ''CERT2'' ''https://10.0.0.2''
                 (mergeKubeconfig demoName ''CERT1'' ''https://10.0.0.1'' exampleKubeconfig))
      = [newCluster ''minikube'' ''MINICERT'' ''https://192.168.49.2:8443'',
         newCluster demoName ''CERT2'' ''https://10.0.0.2'',
         newCluster ''kind-dev'' ''KINDCERT'' ''https://127.0.0.1:6443'']"
proof -
  have h1: "countNamed NamedCluster.Name demoName (Clusters exampleKubeconfig) \<le> 1"
    by (simp add: countNamed_def exampleKubeconfig_def demoName_def newClusterName_def)
  have h2: "countNamed NamedContext.Name demoName (Contexts exampleKubeconfig) \<le> 1"
    by (simp add: countNamed_def exampleKubeconfig_def demoName_def newClusterName_def)
  have h3: "countNamed NamedAuthInfo.Name demoName (Users exampleKubeconfig) \<le> 1"
    by (simp add: countNamed_def exampleKubeconfig_def demoName_def newClusterName_def)
  note both = upsert_twice_one_entry [OF h1 h2 h3 refl, of "''CERT2''" "''https://10.0.0.2''"
      "''CERT1''" "''https://10.0.0.1''"]
  from both have one: "filter (\<lambda>c. NamedCluster.Name c = demoName)
        (Clusters (mergeKubeconfig demoName ''CERT2'' ''https://10.0.0.2''
                    (mergeKubeconfig demoName ''CERT1'' ''https://10.0.0.1'' exampleKubeconfig)))
      = [newCluster demoName ''CERT2'' ''https://10.0.0.2'']"
    by (rule conjunct1)
  from both have "Clusters (mergeKubeconfig demoName ''CERT2'' ''https://10.0.0.2''
                 (mergeKubeconfig demoName ''CERT1'' ''https://10.0.0.1'' exampleKubeconfig))
      = (if demoName \<in> NamedCluster.Name ` set (Clusters exampleKubeconfig)
            then (Clusters exampleKubeconfig)
                   [firstIndex NamedCluster.Name demoName (Clusters exampleKubeconfig)
                      := newCluster demoName ''CERT2'' ''https://10.0.0.2'']
            else Clusters exampleKubeconfig @ [newCluster demoName ''CERT2'' ''https://10.0.0.2''])"
    by blast
  also have "\<dots> = [newCluster ''minikube'' ''MINICERT'' ''https://192.168.49.2:8443'',
         newCluster demoName ''CERT2'' ''https://10.0.0.2'',
         newCluster ''kind-dev'' ''KINDCERT'' ''https://127.0.0.1:6443'']"
    by (simp add: exampleKubeconfig_def firstIndex_def demoName_def newClusterName_def)
  finally show ?thesis using h1 h2 h3 one by (intro conjI)
qed

text \<open>
  The claim as stated, for every loaded document, fails at \<open>duplicateKubeconfig\<close>: after
  the two merges two cluster entries are named \<^verbatim>\<open>gke_p1_us-central1_demo\<close>, and the
  second still holds the values of the file.
\<close>

theorem upsert_twice_counterexample:
  "Clusters (mergeKubeconfig demoName ''CERT2'' ''https://10.0.0.2''
              (mergeKubeconfig demoName ''CERT1'' ''https://10.0.0.1'' duplicateKubeconfig))
     = [newCluster ''minikube'' ''MINICERT'' ''https://192.168.49.2:8443'',
        newCluster demoName ''CERT2'' ''https://10.0.0.2'',
        newCluster demoName ''OLDERCERT'' ''https://10.8.8.8'']
   \<and> countNamed NamedCluster.Name demoName
         (Clusters (mergeKubeconfig demoName ''CERT2'' ''https://10.0.0.2''
                     (mergeKubeconfig demoName ''CERT1'' ''https://10.0.0.1'' duplicateKubeconfig)))
       = 2"
proof -
  have "upsert NamedCluster.Name demoName (newCluster demoName ''CERT2'' ''https://10.0.0.2'')
          ([newCluster ''minikube'' ''MINICERT'' ''https://192.168.49.2:8443'']
             @ newCluster demoName ''OLDCERT'' ''https://10.9.9.9''
             # [newCluster demoName ''OLDERCERT'' ''https://10.8.8.8''])
        = [newCluster ''minikube'' ''MINICERT'' ''https://192.168.49.2:8443'']
             @ newCluster demoName ''CERT2'' ''https://10.0.0.2''
             # [newCluster demoName ''OLDERCERT'' ''https://10.8.8.8'']"
    by (rule upsert_first) (simp_all add: demoName_def newClusterName_def)
  then show ?thesis
    by (simp add: mergeKubeconfig_twice duplicateKubeconfig_def countNamed_def demoName_def
        newClusterName_def)
qed

text \<open>
  C2. Merging twice with the same name, certificate and endpoint gives the document that
  merging once gives: the two records are equal, every field.
\<close>

theorem merge_idempotent:
  "mergeKubeconfig (newClusterName projectID location name) cert (secureEndpoint endpoint)
     (mergeKubeconfig (newClusterName projectID location name) cert (secureEndpoint endpoint) d)
   = mergeKubeconfig (newClusterName projectID location name) cert (secureEndpoint endpoint) d"
  by (rule mergeKubeconfig_twice)

text \<open>
  C4. After the merge for project, location and cluster name, the current context is
  the derived name, and the context entry built for that name is in the contexts
  sequence, so the current context names an entry of it.
\<close>

theorem current_context_is_merged_name:
  "CurrentContext (mergeKubeconfig (newClusterName projectID location name) cert ep d)
     = ''gke_'' @ projectID @ ''_'' @ location @ ''_'' @ name
   \<and> newContext (newClusterName projectID location name)
       \<in> set (Contexts (mergeKubeconfig (newClusterName projectID location name) cert ep d))
   \<and> CurrentContext (mergeKubeconfig (newClusterName projectID location name) cert ep d)
       \<in> NamedContext.Name `
           set (Contexts (mergeKubeconfig (newClusterName projectID location name) cert ep d))"
proof -
  let ?n = "newClusterName projectID location name"
  have "newContext ?n \<in> set (Contexts (mergeKubeconfig ?n cert ep d))"
    by (simp add: new_in_upsert)
  moreover from this have "NamedContext.Name (newContext ?n)
      \<in> NamedContext.Name ` set (Contexts (mergeKubeconfig ?n cert ep d))"
    by (rule imageI)
  ultimately show ?thesis by (simp add: newClusterName_def)
qed

text \<open>
  C10. Where a sequence holds the name at a first position, whatever follows it, the
  merge replaces the entry at that position and leaves the entries after it as they
  were, those of the same name too. The number of entries named \<open>n\<close> after the merge is
  the number before, or one when there was none: the merge never removes a duplicate.
\<close>

theorem first_match_only:
  "(Clusters d = pre @ c # post \<and> NamedCluster.Name c = n \<and> n \<notin> NamedCluster.Name ` set pre
      \<longrightarrow> Clusters (mergeKubeconfig n cert ep d) = pre @ newCluster n cert ep # post)
   \<and> (Contexts d = pre' @ c' # post' \<and> NamedContext.Name c' = n \<and> n \<notin> NamedContext.Name ` set pre'
      \<longrightarrow> Contexts (mergeKubeconfig n cert ep d) = pre' @ newContext n # post')
   \<and> (Users d = pre'' @ c'' # post'' \<and> NamedAuthInfo.Name c'' = n
        \<and> n \<notin> NamedAuthInfo.Name ` set pre''
      \<longrightarrow> Users (mergeKubeconfig n cert ep d) = pre'' @ newUser n # post'')
   \<and> countNamed NamedCluster.Name n (Clusters (mergeKubeconfig n cert ep d))
       = max 1 (countNamed NamedCluster.Name n (Clusters d))
   \<and> countNamed NamedContext.Name n (Contexts (mergeKubeconfig n cert ep d))
       = max 1 (countNamed NamedContext.Name n (Contexts d))
   \<and> countNamed NamedAuthInfo.Name n (Users (mergeKubeconfig n cert ep d))
       = max 1 (countNamed NamedAuthInfo.Name n (Users d))"
  by (simp add: upsert_first countNamed_upsert)

theorem first_match_only_witness:
  "Clusters duplicateKubeconfig
     = [newCluster ''minikube'' ''MINICERT'' ''https://192.168.49.2:8443'']
         @ newCluster demoName ''OLDCERT'' ''https://10.9.9.9''
         # [newCluster demoName ''OLDERCERT'' ''https://10.8.8.8'']
   \<and> NamedCluster.Name (newCluster demoName ''OLDCERT'' ''https://10.9.9.9'') = demoName
   \<and> demoName \<notin> NamedCluster.Name ` set [newCluster ''minikube'' ''MINICERT'' ''https://192.168.49.2:8443'']
   \<and> Clusters (mergeKubeconfig demoName ''CERT'' ''https://10.0.0.1'' duplicateKubeconfig)
     = [newCluster ''minikube'' ''MINICERT'' ''https://192.168.49.2:8443'',
        newCluster demoName ''CERT'' ''https://10.0.0.1'',
        newCluster demoName ''OLDERCERT'' ''https://10.8.8.8'']
   \<and> countNamed NamedCluster.Name demoName
        (Clusters (mergeKubeconfig demoName ''CERT'' ''https://10.0.0.1'' duplicateKubeconfig)) = 2"
proof -
  have h1: "Clusters duplicateKubeconfig
     = [newCluster ''minikube'' ''MINICERT'' ''https://192.168.49.2:8443'']
         @ newCluster demoName ''OLDCERT'' ''https://10.9.9.9''
         # [newCluster demoName ''OLDERCERT'' ''https://10.8.8.8'']"
    by (simp add: duplicateKubeconfig_def)
  have h2: "NamedCluster.Name (newCluster demoName ''OLDCERT'' ''https://10.9.9.9'') = demoName"
    by simp
  have h3: "demoName \<notin> NamedCluster.Name ` set [newCluster ''minikube'' ''MINICERT'' ''https://192.168.49.2:8443'']"
    by (simp add: demoName_def newClusterName_def)
  have two: "countNamed NamedCluster.Name demoName (Clusters duplicateKubeconfig) = 2"
    by (simp add: countNamed_def duplicateKubeconfig_def demoName_def newClusterName_def)
  from first_match_only [of duplicateKubeconfig
      "[newCluster ''minikube'' ''MINICERT'' ''https://192.168.49.2:8443'']"
      "newCluster demoName ''OLDCERT'' ''https://10.9.9.9''"
      "[newCluster demoName ''OLDERCERT'' ''https://10.8.8.8'']" demoName
      "''CERT''" "''https://10.0.0.1''"]
  have "Clusters (mergeKubeconfig demoName ''CERT'' ''https://10.0.0.1'' duplicateKubeconfig)
     = [newCluster ''minikube'' ''MINICERT'' ''https://192.168.49.2:8443'']
         @ newCluster demoName ''CERT'' ''https://10.0.0.1''
         # [newCluster demoName ''OLDERCERT'' ''https://10.8.8.8'']"
    and "countNamed NamedCluster.Name demoName
        (Clusters (mergeKubeconfig demoName ''CERT'' ''https://10.0.0.1'' duplicateKubeconfig))
       = max 1 (countNamed NamedCluster.Name demoName (Clusters duplicateKubeconfig))"
    using h1 h2 h3 by blast+
  then show ?thesis using h1 h2 h3 two by (simp del: merge_fields)
qed

section \<open>The claims about the handler\<close>

text \<open>
  C3. The handler does not keep the unrelated entries of the starting file. On the
  machine whose \<^verbatim>\<open>config\<close> is \<open>tokenText\<close> the call for \<^verbatim>\<open>p1\<close>, \<^verbatim>\<open>us-central1\<close>,
  \<^verbatim>\<open>demo\<close> succeeds. Before it the user \<^verbatim>\<open>other\<close> has a \<^verbatim>\<open>token\<close>, the cluster
  \<^verbatim>\<open>other\<close> a \<^verbatim>\<open>tls-server-name\<close> and the context \<^verbatim>\<open>other\<close> a \<^verbatim>\<open>namespace\<close>; after it
  the file holds \<^verbatim>\<open>user: {}\<close> for the user \<^verbatim>\<open>other\<close> and neither of the other two
  fields: the structs that the file is read into (lines 100-151) declare none of them,
  and the whole file is written from the structs (lines 399, 414).
\<close>

theorem unrelated_fields_dropped:
  "ReadFile (fs tokenWorld) [''home'', ''u'', ''.kube'', ''config'']
     = Inr (unlines
         [''apiVersion: v1'',
          ''clusters:'',
          ''- cluster:'',
          ''    certificate-authority-data: OTHERCA'',
          ''    server: https://203.0.113.7'',
          ''    tls-server-name: other.internal'',
          ''  name: other'',
          ''contexts:'',
          ''- context:'',
          ''    cluster: other'',
          ''    namespace: prod'',
          ''    user: other'',
          ''  name: other'',
          ''current-context: other'',
          ''kind: Config'',
          ''users:'',
          ''- name: other'',
          ''  user:'',
          ''    token: SECRET''])
   \<and> getKubeconfig exampleHandlers tokenYaml exampleArgs tokenWorld =
       (Inr (successText ''demo'' ''p1'' ''us-central1'' [''home'', ''u'', ''.kube'', ''config'']
               demoName),
        tokenWorld\<lparr>fs := (fs tokenWorld)
          ([''home'', ''u'', ''.kube'', ''config''] \<mapsto>
             File (unlines
               [''apiVersion: v1'',
                ''clusters:'',
                ''- cluster:'',
                ''    certificate-authority-data: OTHERCA'',
                ''    server: https://203.0.113.7'',
                ''  name: other'',
                ''- cluster:'',
                ''    certificate-authority-data: BASE64CERT'',
                ''    server: https://10.0.0.1'',
                ''  name: gke_p1_us-central1_demo'',
                ''contexts:'',
                ''- context:'',
                ''    cluster: other'',
                ''    user: other'',
                ''  name: other'',
                ''- context:'',
                ''    cluster: gke_p1_us-central1_demo'',
                ''    user: gke_p1_us-central1_demo'',
                ''  name: gke_p1_us-central1_demo'',
                ''current-context: gke_p1_us-central1_demo'',
                ''kind: Config'',
                ''users:'',
                ''- name: other'',
                ''  user: {}'',
                ''- name: gke_p1_us-central1_demo'',
                ''  user:'',
                ''    exec:'',
                ''      apiVersion: client.authentication.k8s.io/v1beta1'',
                ''      command: gke-gcloud-auth-plugin'',
                ''      installHint: Install gke-gcloud-auth-plugin for use with kubectl by following https://cloud.google.com/kubernetes-engine/docs/how-to/cluster-access-for-kubectl#install_plugin'',
                ''      provideClusterInfo: true''])
               384)\<rparr>)"
proof -
  have "linesNamedCluster (newCluster ''other'' ''OTHERCA'' ''https://203.0.113.7'')
          @ linesNamedCluster (newCluster demoName ''BASE64CERT'' ''https://10.0.0.1'')
      = [''- cluster:'',
         ''    certificate-authority-data: OTHERCA'',
         ''    server: https://203.0.113.7'',
         ''  name: other'',
         ''- cluster:'',
         ''    certificate-authority-data: BASE64CERT'',
         ''    server: https://10.0.0.1'',
         ''  name: gke_p1_us-central1_demo'']"
    and "linesNamedContext (newContext ''other'') @ linesNamedContext (newContext demoName)
      = [''- context:'',
         ''    cluster: other'',
         ''    user: other'',
         ''  name: other'',
         ''- context:'',
         ''    cluster: gke_p1_us-central1_demo'',
         ''    user: gke_p1_us-central1_demo'',
         ''  name: gke_p1_us-central1_demo'']"
    and "linesNamedAuthInfo \<lparr>NamedAuthInfo.Name = ''other'', NamedAuthInfo.User = \<lparr>Exec = None\<rparr>\<rparr>
          @ linesNamedAuthInfo (newUser demoName)
      = [''- name: other'',
         ''  user: {}'',
         ''- name: gke_p1_us-central1_demo'',
         ''  user:'',
         ''    exec:'',
         ''      apiVersion: client.authentication.k8s.io/v1beta1'',
         ''      command: gke-gcloud-auth-plugin'',
         ''      installHint: Install gke-gcloud-auth-plugin for use with kubectl by following https://cloud.google.com/kubernetes-engine/docs/how-to/cluster-access-for-kubectl#install_plugin'',
         ''      provideClusterInfo: true'']"
    by (simp_all add: linesNamedCluster_def linesNamedContext_def linesNamedAuthInfo_def
        linesExecConfig_def newCluster_def newContext_def newUser_def demoName_def
        newClusterName_def)
  moreover have "demoName \<noteq> []" "demoName \<noteq> ''other''"
    by (simp_all add: demoName_def newClusterName_def)
  ultimately have "showKubeconfig
         (mergeKubeconfig demoName ''BASE64CERT'' ''https://10.0.0.1'' tokenKubeconfig)
      = unlines
               [''apiVersion: v1'',
                ''clusters:'',
                ''- cluster:'',
                ''    certificate-authority-data: OTHERCA'',
                ''    server: https://203.0.113.7'',
                ''  name: other'',
                ''- cluster:'',
                ''    certificate-authority-data: BASE64CERT'',
                ''    server: https://10.0.0.1'',
                ''  name: gke_p1_us-central1_demo'',
                ''contexts:'',
                ''- context:'',
                ''    cluster: other'',
                ''    user: other'',
                ''  name: other'',
                ''- context:'',
                ''    cluster: gke_p1_us-central1_demo'',
                ''    user: gke_p1_us-central1_demo'',
                ''  name: gke_p1_us-central1_demo'',
                ''current-context: gke_p1_us-central1_demo'',
                ''kind: Config'',
                ''users:'',
                ''- name: other'',
                ''  user: {}'',
                ''- name: gke_p1_us-central1_demo'',
                ''  user:'',
                ''    exec:'',
                ''      apiVersion: client.authentication.k8s.io/v1beta1'',
                ''      command: gke-gcloud-auth-plugin'',
                ''      installHint: Install gke-gcloud-auth-plugin for use with kubectl by following https://cloud.google.com/kubernetes-engine/docs/how-to/cluster-access-for-kubectl#install_plugin'',
                ''      provideClusterInfo: true'']"
    by (simp add: showKubeconfig_def tokenKubeconfig_def upsert_absent)
       (simp add: demoName_def newClusterName_def)
  then show ?thesis
    using run_tokenWorld at_tokenWorld(2) by (simp add: tokenText_def)
qed




text \<open>
  C6. On every successful call the cluster entry \<open>c\<close> built for the derived name is in the
  document whose serialisation the file holds, and its server is the resolver's endpoint
  if that starts with \<^verbatim>\<open>https://\<close> and \<^verbatim>\<open>https://\<close> followed by the endpoint
  otherwise; in both cases the stored server starts with \<^verbatim>\<open>https://\<close>. The two
  endpoints of the specification are stored as it says.
\<close>

theorem stored_server_scheme:
  assumes "getKubeconfig h y args w = (Inr msg, w')"
    and "GetCluster h (requestName h args) = Inr resp"
    and "HOME w = Some homeDir"
    and "n = newClusterName (projectOf h args) (locationOf h args) (getKubeconfigArgs.Name args)"
    and "c = newCluster n (GetClusterCaCertificate (MasterAuth resp))
               (secureEndpoint (Endpoint resp))"
  shows "(\<exists>existing bytes m.
            loadKubeconfig y (fs w) (kubeconfigPathOf homeDir) = Inr existing
          \<and> Marshal y (mergeKubeconfig n (GetClusterCaCertificate (MasterAuth resp))
                         (secureEndpoint (Endpoint resp)) existing) = Some bytes
          \<and> nodeAt (fs w') (kubeconfigPathOf homeDir) = Some (File bytes m)
          \<and> c \<in> set (Clusters (mergeKubeconfig n (GetClusterCaCertificate (MasterAuth resp))
                                  (secureEndpoint (Endpoint resp)) existing)))
       \<and> Server (NamedCluster.Cluster c) =
           (if HasPrefix (Endpoint resp) ''https://'' then Endpoint resp
            else ''https://'' @ Endpoint resp)
       \<and> HasPrefix (Server (NamedCluster.Cluster c)) ''https://''
       \<and> secureEndpoint ''10.0.0.1:443'' = ''https://10.0.0.1:443''
       \<and> secureEndpoint ''https://10.0.0.1:443'' = ''https://10.0.0.1:443''"
proof -
  let ?cert = "GetClusterCaCertificate (MasterAuth resp)"
  let ?ep = "secureEndpoint (Endpoint resp)"
  from getKubeconfig_Inr [OF assms(1)] assms(2,3)
  obtain existing f' where ld: "loadKubeconfig y (fs w) (kubeconfigPathOf homeDir) = Inr existing"
    and wr: "writeKubeconfig y (fs w) (umask w) (kubeconfigPathOf homeDir)
               (mergeKubeconfig n ?cert ?ep existing) = (None, f')"
    and w': "w' = w\<lparr>fs := f'\<rparr>"
    by (auto simp: assms(4))
  from writeKubeconfig_None [OF wr] obtain bytes m
    where "Marshal y (mergeKubeconfig n ?cert ?ep existing) = Some bytes"
      and "nodeAt f' (kubeconfigPathOf homeDir) = Some (File bytes m)"
    by blast
  moreover have "c \<in> set (Clusters (mergeKubeconfig n ?cert ?ep existing))"
    by (simp add: assms(5) new_in_upsert)
  ultimately have stored: "\<exists>existing bytes m.
            loadKubeconfig y (fs w) (kubeconfigPathOf homeDir) = Inr existing
          \<and> Marshal y (mergeKubeconfig n ?cert ?ep existing) = Some bytes
          \<and> nodeAt (fs w') (kubeconfigPathOf homeDir) = Some (File bytes m)
          \<and> c \<in> set (Clusters (mergeKubeconfig n ?cert ?ep existing))"
    using ld w' by auto
  have srv: "Server (NamedCluster.Cluster c) = ?ep" by (simp add: assms(5) newCluster_def)
  have "Server (NamedCluster.Cluster c) =
           (if HasPrefix (Endpoint resp) ''https://'' then Endpoint resp
            else ''https://'' @ Endpoint resp)"
    by (simp add: srv secureEndpoint_def)
  moreover have "HasPrefix (Server (NamedCluster.Cluster c)) ''https://''"
    by (simp add: srv secureEndpoint_https)
  moreover have "secureEndpoint ''10.0.0.1:443'' = ''https://10.0.0.1:443''"
    "secureEndpoint ''https://10.0.0.1:443'' = ''https://10.0.0.1:443''"
    by (simp_all add: secureEndpoint_def HasPrefix_def)
  ultimately show ?thesis using stored by blast
qed

theorem stored_server_scheme_witness:
  "getKubeconfig exampleHandlers exampleYaml exampleArgs freshWorld =
     (Inr (successText ''demo'' ''p1'' ''us-central1'' [''home'', ''u'', ''.kube'', ''config'']
             demoName),
      freshWorld\<lparr>fs := (fs freshWorld)
         ([''home'', ''u'', ''.kube''] \<mapsto> Dir 493,
          [''home'', ''u'', ''.kube'', ''config''] \<mapsto>
            File ''current-context: gke_p1_us-central1_demo; clusters: gke_p1_us-central1_demo https://10.0.0.1; '' 384)\<rparr>)
   \<and> GetCluster exampleHandlers (requestName exampleHandlers exampleArgs)
       = Inr \<lparr>MasterAuth = Some \<lparr>ClusterCaCertificate = ''BASE64CERT''\<rparr>, Endpoint = ''10.0.0.1''\<rparr>
   \<and> HOME freshWorld = Some [''home'', ''u'']
   \<and> Server (NamedCluster.Cluster (newCluster demoName ''BASE64CERT'' (secureEndpoint ''10.0.0.1'')))
       = ''https://10.0.0.1''
   \<and> HasPrefix (Server (NamedCluster.Cluster
         (newCluster demoName ''BASE64CERT'' (secureEndpoint ''10.0.0.1'')))) ''https://''"
proof -
  note all = stored_server_scheme [OF run_freshWorld example_resolved(1) example_home(1) refl refl]
  from all [THEN conjunct2, THEN conjunct1]
  have "Server (NamedCluster.Cluster (newCluster demoName ''BASE64CERT'' (secureEndpoint ''10.0.0.1'')))
       = ''https://10.0.0.1''"
    by (simp add: example_request example_resolved HasPrefix_def)
  moreover from all [THEN conjunct2, THEN conjunct2, THEN conjunct1]
  have "HasPrefix (Server (NamedCluster.Cluster
         (newCluster demoName ''BASE64CERT'' (secureEndpoint ''10.0.0.1'')))) ''https://''"
    by (simp add: example_request example_resolved)
  ultimately show ?thesis
    using run_freshWorld example_resolved(1) [of "requestName exampleHandlers exampleArgs"]
      example_home(1)
    by (intro conjI)
qed

text \<open>
  C7. When the cluster manager's answer has no certificate, or has a certificate and no
  endpoint, the handler returns the error of the missing certificate, respectively of
  the missing endpoint, two different errors, and the operating system's state (the
  file system with it) is the one it started from.
\<close>

theorem empty_certificate_or_endpoint:
  assumes "getKubeconfigArgs.Name args \<noteq> []"
    and "GetCluster h (requestName h args) = Inr resp"
    and "GetClusterCaCertificate (MasterAuth resp) = [] \<or> Endpoint resp = []"
  shows "getKubeconfig h y args w =
           (Inl (if GetClusterCaCertificate (MasterAuth resp) = []
                 then CaCertificateNotFound (getKubeconfigArgs.Name args)
                 else EndpointNotFound (getKubeconfigArgs.Name args)), w)
       \<and> CaCertificateNotFound (getKubeconfigArgs.Name args)
           \<noteq> EndpointNotFound (getKubeconfigArgs.Name args)"
  using assms by (auto simp: getKubeconfig_def Let_def)

theorem empty_certificate_or_endpoint_witness:
  "getKubeconfigArgs.Name exampleArgs \<noteq> []
   \<and> GetCluster noCertificateHandlers (requestName noCertificateHandlers exampleArgs)
       = Inr \<lparr>MasterAuth = None, Endpoint = ''10.0.0.1''\<rparr>
   \<and> GetClusterCaCertificate (MasterAuth \<lparr>MasterAuth = None, Endpoint = ''10.0.0.1''\<rparr>) = []
   \<and> getKubeconfig noCertificateHandlers exampleYaml exampleArgs existingWorld
       = (Inl (CaCertificateNotFound ''demo''), existingWorld)
   \<and> GetCluster noEndpointHandlers (requestName noEndpointHandlers exampleArgs)
       = Inr \<lparr>MasterAuth = Some \<lparr>ClusterCaCertificate = ''BASE64CERT''\<rparr>, Endpoint = []\<rparr>
   \<and> getKubeconfig noEndpointHandlers exampleYaml exampleArgs existingWorld
       = (Inl (EndpointNotFound ''demo''), existingWorld)"
proof -
  have h1: "getKubeconfigArgs.Name exampleArgs \<noteq> []" by (simp add: example_request)
  have h2: "GetCluster noCertificateHandlers (requestName noCertificateHandlers exampleArgs)
       = Inr \<lparr>MasterAuth = None, Endpoint = ''10.0.0.1''\<rparr>"
    by (simp add: noCertificateHandlers_def)
  have h3: "GetClusterCaCertificate (MasterAuth \<lparr>MasterAuth = None, Endpoint = ''10.0.0.1''\<rparr>) = []"
    by (simp add: GetClusterCaCertificate_def)
  have h4: "GetCluster noEndpointHandlers (requestName noEndpointHandlers exampleArgs)
       = Inr \<lparr>MasterAuth = Some \<lparr>ClusterCaCertificate = ''BASE64CERT''\<rparr>, Endpoint = []\<rparr>"
    by (simp add: noEndpointHandlers_def)
  have h5: "Endpoint \<lparr>MasterAuth = Some \<lparr>ClusterCaCertificate = ''BASE64CERT''\<rparr>, Endpoint = []\<rparr> = []"
    by simp
  from empty_certificate_or_endpoint [OF h1 h2 disjI1 [OF h3], of exampleYaml existingWorld]
  have a: "getKubeconfig noCertificateHandlers exampleYaml exampleArgs existingWorld
       = (Inl (CaCertificateNotFound ''demo''), existingWorld)"
    by (simp add: GetClusterCaCertificate_def example_request)
  from empty_certificate_or_endpoint [OF h1 h4 disjI2 [OF h5], of exampleYaml existingWorld]
  have b: "getKubeconfig noEndpointHandlers exampleYaml exampleArgs existingWorld
       = (Inl (EndpointNotFound ''demo''), existingWorld)"
    by (simp add: example_request example_resolved)
  from h1 h2 h3 a h4 b show ?thesis by (intro conjI)
qed

text \<open>
  C8. When the file at the path is read and the YAML library rejects its content, the
  handler returns the unmarshal error for that path, and the operating system's state is
  the one it started from: nothing is written and nothing of the content is used.
\<close>

theorem unparsable_file_untouched:
  assumes "getKubeconfigArgs.Name args \<noteq> []"
    and "GetCluster h (requestName h args) = Inr resp"
    and "GetClusterCaCertificate (MasterAuth resp) \<noteq> []"
    and "Endpoint resp \<noteq> []"
    and "HOME w = Some homeDir"
    and "ReadFile (fs w) (kubeconfigPathOf homeDir) = Inr kubeconfigBytes"
    and "Unmarshal y kubeconfigBytes = None"
  shows "getKubeconfig h y args w = (Inl (UnmarshalFailed (kubeconfigPathOf homeDir)), w)"
  by (subst getKubeconfig_resolved [OF assms(1-5)]) (simp add: loadKubeconfig_def assms(6,7))

theorem unparsable_file_untouched_witness:
  "getKubeconfigArgs.Name exampleArgs \<noteq> []
   \<and> GetCluster exampleHandlers (requestName exampleHandlers exampleArgs)
       = Inr \<lparr>MasterAuth = Some \<lparr>ClusterCaCertificate = ''BASE64CERT''\<rparr>, Endpoint = ''10.0.0.1''\<rparr>
   \<and> HOME brokenWorld = Some [''home'', ''u'']
   \<and> ReadFile (fs brokenWorld) (kubeconfigPathOf [''home'', ''u'']) = Inr ''clusters: [unclosed''
   \<and> Unmarshal exampleYaml ''clusters: [unclosed'' = None
   \<and> getKubeconfig exampleHandlers exampleYaml exampleArgs brokenWorld
       = (Inl (UnmarshalFailed [''home'', ''u'', ''.kube'', ''config'']), brokenWorld)"
proof -
  have h1: "getKubeconfigArgs.Name exampleArgs \<noteq> []" by (simp add: example_request)
  have h3: "GetClusterCaCertificate
      (MasterAuth \<lparr>MasterAuth = Some \<lparr>ClusterCaCertificate = ''BASE64CERT''\<rparr>, Endpoint = ''10.0.0.1''\<rparr>) \<noteq> []"
    by (simp add: example_resolved)
  have h4: "Endpoint \<lparr>MasterAuth = Some \<lparr>ClusterCaCertificate = ''BASE64CERT''\<rparr>, Endpoint = ''10.0.0.1''\<rparr> \<noteq> []"
    by simp
  from unparsable_file_untouched [OF h1 example_resolved(1) h3 h4 example_home(3)
      at_brokenWorld]
  have "getKubeconfig exampleHandlers exampleYaml exampleArgs brokenWorld
       = (Inl (UnmarshalFailed [''home'', ''u'', ''.kube'', ''config'']), brokenWorld)"
    by (simp add: example_home)
  then show ?thesis
    using h1 example_resolved(1) [of "requestName exampleHandlers exampleArgs"] example_home(3)
      at_brokenWorld
    by (intro conjI)
qed

text \<open>
  C9 (as amended). On every successful call the file at the path holds the marshalled
  merged document; its mode is \<^verbatim>\<open>0600\<close> before umask (384, at most owner read and
  write) when there was no file before, and the mode of the old file when there was one.
  When the \<^verbatim>\<open>.kube\<close> directory was missing it is a directory of mode \<^verbatim>\<open>0755\<close> before
  umask (493) afterwards: under the usual umask \<^verbatim>\<open>022\<close> the group and others can read
  and search it. Every other path is as before, except missing ancestors of \<^verbatim>\<open>.kube\<close>,
  which are directories of that mode too.
\<close>

theorem written_modes:
  assumes "getKubeconfig h y args w = (Inr msg, w')"
    and "HOME w = Some homeDir"
    and "n = newClusterName (projectOf h args) (locationOf h args) (getKubeconfigArgs.Name args)"
  shows "(\<exists>resp existing bytes.
            GetCluster h (requestName h args) = Inr resp
          \<and> loadKubeconfig y (fs w) (kubeconfigPathOf homeDir) = Inr existing
          \<and> Marshal y (mergeKubeconfig n (GetClusterCaCertificate (MasterAuth resp))
                         (secureEndpoint (Endpoint resp)) existing) = Some bytes
          \<and> nodeAt (fs w') (kubeconfigPathOf homeDir)
              = Some (File bytes (case nodeAt (fs w) (kubeconfigPathOf homeDir) of
                                    Some (File old m) \<Rightarrow> m
                                  | _ \<Rightarrow> beforeUmask (umask w) 384)))
       \<and> (nodeAt (fs w) (homeDir @ [''.kube'']) = None
            \<longrightarrow> nodeAt (fs w') (homeDir @ [''.kube''])
                  = Some (Dir (beforeUmask (umask w) 493)))
       \<and> (\<forall>q. q \<noteq> kubeconfigPathOf homeDir \<longrightarrow>
              nodeAt (fs w') q = nodeAt (fs w) q \<or>
              (nodeAt (fs w) q = None
                 \<and> nodeAt (fs w') q = Some (Dir (beforeUmask (umask w) 493))
                 \<and> (\<exists>k. q = take k (homeDir @ [''.kube'']))))
       \<and> ownerOnly (beforeUmask (umask w) 384)
       \<and> beforeUmask 18 493 = 493 \<and> \<not> ownerOnly 493"
proof -
  from getKubeconfig_Inr [OF assms(1)] assms(2)
  obtain resp existing f' where rs: "GetCluster h (requestName h args) = Inr resp"
    and ld: "loadKubeconfig y (fs w) (kubeconfigPathOf homeDir) = Inr existing"
    and wr: "writeKubeconfig y (fs w) (umask w) (kubeconfigPathOf homeDir)
               (mergeKubeconfig n (GetClusterCaCertificate (MasterAuth resp))
                  (secureEndpoint (Endpoint resp)) existing) = (None, f')"
    and w': "fs w' = f'"
    by (auto simp: assms(3))
  from writeKubeconfig_None [OF wr, unfolded Dir_kubeconfigPathOf] rs ld
  show ?thesis unfolding w'
    by (simp add: mode_bits ownerOnly_created_file example_umask) blast
qed

theorem written_modes_witness:
  "getKubeconfig exampleHandlers exampleYaml exampleArgs freshWorld =
     (Inr (successText ''demo'' ''p1'' ''us-central1'' [''home'', ''u'', ''.kube'', ''config'']
             demoName),
      freshWorld\<lparr>fs := (fs freshWorld)
         ([''home'', ''u'', ''.kube''] \<mapsto> Dir 493,
          [''home'', ''u'', ''.kube'', ''config''] \<mapsto>
            File ''current-context: gke_p1_us-central1_demo; clusters: gke_p1_us-central1_demo https://10.0.0.1; '' 384)\<rparr>)
   \<and> HOME freshWorld = Some [''home'', ''u'']
   \<and> nodeAt (fs freshWorld) [''home'', ''u'', ''.kube''] = None
   \<and> nodeAt (fs (snd (getKubeconfig exampleHandlers exampleYaml exampleArgs freshWorld)))
        [''home'', ''u'', ''.kube''] = Some (Dir 493)"
proof -
  have none: "nodeAt (fs freshWorld) [''home'', ''u'', ''.kube''] = None"
    by (simp add: freshWorld_def nodeAt_def)
  note all = written_modes [OF run_freshWorld example_home(1) refl]
  from all [THEN conjunct2, THEN conjunct1] none
  have "nodeAt (fs (snd (getKubeconfig exampleHandlers exampleYaml exampleArgs freshWorld)))
        [''home'', ''u'', ''.kube''] = Some (Dir 493)"
    by (simp add: run_freshWorld example_umask)
  with run_freshWorld example_home(1) none show ?thesis by (intro conjI)
qed

text \<open>
  The claim as stated fails twice, under the usual umask \<^verbatim>\<open>022\<close>. On the machine without
  \<^verbatim>\<open>.kube\<close> the call succeeds and the directory it makes has mode \<^verbatim>\<open>0755\<close>, which is
  not owner-only. On the machine whose \<^verbatim>\<open>config\<close> has mode \<^verbatim>\<open>0644\<close> the call succeeds
  and the file it has written still has mode \<^verbatim>\<open>0644\<close>, which is not owner-only either.
\<close>

theorem written_modes_counterexample:
  "umask freshWorld = 18 \<and> umask existingWorld = 18
   \<and> fst (getKubeconfig exampleHandlers exampleYaml exampleArgs freshWorld)
     = Inr (successText ''demo'' ''p1'' ''us-central1'' [''home'', ''u'', ''.kube'', ''config'']
              demoName)
   \<and> nodeAt (fs freshWorld) [''home'', ''u'', ''.kube''] = None
   \<and> nodeAt (fs (snd (getKubeconfig exampleHandlers exampleYaml exampleArgs freshWorld)))
        [''home'', ''u'', ''.kube''] = Some (Dir 493)
   \<and> \<not> ownerOnly 493
   \<and> fst (getKubeconfig exampleHandlers exampleYaml exampleArgs existingWorld)
     = Inr (successText ''demo'' ''p1'' ''us-central1'' [''home'', ''u'', ''.kube'', ''config'']
              demoName)
   \<and> nodeAt (fs (snd (getKubeconfig exampleHandlers exampleYaml exampleArgs existingWorld)))
        [''home'', ''u'', ''.kube'', ''config'']
     = Some (File ''current-context: gke_p1_us-central1_demo; clusters: minikube https://192.168.49.2:8443; gke_p1_us-central1_demo https://10.0.0.1; kind-dev https://127.0.0.1:6443; '' 420)
   \<and> \<not> ownerOnly 420"
proof -
  have "nodeAt (fs freshWorld) [''home'', ''u'', ''.kube''] = None"
    by (simp add: freshWorld_def nodeAt_def)
  then show ?thesis
    by (simp add: run_freshWorld run_existingWorld mode_bits nodeAt_def example_umask)
qed

end
